theory Spec2Isabelle
  imports Main "HOL-Library.Multiset"
begin

section \<open>JavaScript values and helpers\<close>

text \<open>
  The rewriter \<open>cqn4sql\<close> and the inference \<open>infer\<close> work on JavaScript objects. A property
  that may be absent is an \<open>option\<close> (\<open>None\<close> is \<open>undefined\<close>), an exception is the value
  \<open>Err\<close>, and a recursion through the model that need not end carries fuel: \<open>NoFuel\<close> is
  "did not return", and is never counted as an error of the program.
\<close>

datatype val = VNull | VBool bool | VNum int | VStr string

text \<open>JavaScript truthiness of a literal (\<open>if (token.val)\<close>).\<close>

fun truthy_val :: "val \<Rightarrow> bool" where
  "truthy_val VNull = False"
| "truthy_val (VBool b) = b"
| "truthy_val (VNum n) = (n \<noteq> 0)"
| "truthy_val (VStr s) = (s \<noteq> [])"

text \<open>Truthiness of an optional string (\<open>undefined\<close>, \<open>null\<close> and \<open>''\<close> are falsy).\<close>

fun truthy :: "string option \<Rightarrow> bool" where
  "truthy None = False"
| "truthy (Some s) = (s \<noteq> [])"

text \<open>A value inside a template literal: \<open>undefined\<close> prints as the word.\<close>

fun js_str :: "string option \<Rightarrow> string" where
  "js_str None = ''undefined''"
| "js_str (Some s) = s"

text \<open>\<open>Array.prototype.join\<close> on strings.\<close>

fun join :: "string \<Rightarrow> string list \<Rightarrow> string" where
  "join sep [] = []"
| "join sep [x] = x"
| "join sep (x # y # ys) = x @ sep @ join sep (y # ys)"

text \<open>\<open>String.prototype.split\<close> on one character, and \<open>s.split('.').pop()\<close>.\<close>

fun split_chr :: "char \<Rightarrow> string \<Rightarrow> string list" where
  "split_chr c [] = [[]]"
| "split_chr c (x # xs) =
     (if x = c then [] # split_chr c xs
      else (case split_chr c xs of [] \<Rightarrow> [[x]] | y # ys \<Rightarrow> (x # y) # ys))"

definition last_segment :: "string \<Rightarrow> string" where
  "last_segment s = last (split_chr (CHR ''.'') s)"

text \<open>
  A plain object (\<open>{}\<close>, \<open>{ OR: true, or: true }\<close>) inherits the properties of
  \<open>Object.prototype\<close>: \<open>k in obj\<close>, and \<open>obj[k]\<close> as a condition, find them as well as the
  own properties.
\<close>

definition object_prototype :: "string list" where
  "object_prototype =
     [''constructor'', ''__defineGetter__'', ''__defineSetter__'', ''hasOwnProperty'',
      ''__lookupGetter__'', ''__lookupSetter__'', ''isPrototypeOf'', ''propertyIsEnumerable'',
      ''toString'', ''valueOf'', ''__proto__'', ''toLocaleString'']"

definition js_in :: "string \<Rightarrow> (string \<times> 'a) list \<Rightarrow> bool" where
  "js_in k obj = (k \<in> fst ` set obj \<or> k \<in> set object_prototype)"

text \<open>\<open>xs[xs.length - 1]\<close>: \<open>undefined\<close> on the empty array.\<close>

fun last_opt :: "'a list \<Rightarrow> 'a option" where
  "last_opt [] = None"
| "last_opt xs = Some (last xs)"

text \<open>\<open>Array.prototype.splice(start, deleteCount, ...items)\<close> for \<open>start \<ge> 0\<close>: a start beyond
  the end is clamped to the length, so nothing is removed and the items are appended.\<close>

definition splice :: "nat \<Rightarrow> nat \<Rightarrow> 'a list \<Rightarrow> 'a list \<Rightarrow> 'a list" where
  "splice start cnt items xs = take start xs @ items @ drop (start + cnt) xs"

datatype error =
    TypeError
  | NoModel
  | UnionNotSupported
  | DefinitionNotFound string
  | NoAssociation string
  | QuerySourceNotEntityOrAssoc
  | DuplicateAlias string
  | ExpectingAlias
  | DuplicateElement string
  | NotSupportedColumn
  | UnknownName string string
  | AmbiguousName string
  | AmbiguousWildcard
  | NotInColumnList string
  | FilterOnNonAssoc
  | UnmanagedInInfixFilter
  | NonFkInInfixFilter
  | CastOnStructure
  | UnexpectedSelfAfterExists string
  | FilterNeedsSingleForeignKey
  | UnsupportedStructuralComparison string
  | StructuralShapeMismatch
  | CannotCompareStructWithValue
  | AssocInExpression
  | StructInExpression
  | InvalidNode
  | EmptyProjection

datatype 'a res = Ok 'a | Err error | NoFuel

definition bind :: "'a res \<Rightarrow> ('a \<Rightarrow> 'b res) \<Rightarrow> 'b res" where
  "bind m f = (case m of Ok x \<Rightarrow> f x | Err e \<Rightarrow> Err e | NoFuel \<Rightarrow> NoFuel)"

section \<open>The linked model (CSN)\<close>

text \<open>
  A definition of the linked model: an entity, an element (scalar, structured, association)
  or a query source. \<open>parent\<close> is the chain of enclosing definitions (kind and name of each),
  which is all that \<open>getFullName\<close> and \<open>getParentEntity\<close> read of \<open>node.parent\<close>. The property
  \<open>keys\<close> holds the foreign keys of a managed association (an array of \<open>{ref, as}\<close>) or the key
  aspect of an entity (the names of its key elements). \<open>_target\<close> is \<open>model.definitions[target]\<close>.
  An element of a query is a definition as well: \<open>type\<close> and \<open>key\<close>, its annotations
  (\<open>@...\<close>), and the hidden mark \<open>$assocExpand\<close> of an expanded association.
\<close>

datatype parent = NoParent | Parent "string option" "string option" parent

datatype fkey = FKey (fk_ref: "string list") (fk_as: "string option")

datatype keys = FKeys "fkey list" | KeyNames "string list"

datatype ontoken = ORef "string list" | OStr string | OVal val | OXpr "ontoken list"

record dattrs =
  d_name :: "string option"
  d_kind :: "string option"
  d_keys :: "keys option"
  d_foreignKeys :: "string list option"
  d_on :: "ontoken list option"
  d_target :: "string option"
  d_isAssociation :: bool
  d_virtual :: bool
  d_parent :: parent
  d_persistence_skip :: bool
  d_localized :: "bool option"
  d_SELECT :: bool
  d_type :: "string option"
  d_key :: bool
  d_annos :: "(string \<times> val) list"
  d_assocExpand :: bool

datatype csn = Def (attrs: dattrs) (elements: "(string \<times> csn) list option")

type_synonym model = "(string \<times> csn) list"

definition no_attrs :: dattrs where
  "no_attrs = \<lparr> d_name = None, d_kind = None, d_keys = None, d_foreignKeys = None, d_on = None,
     d_target = None, d_isAssociation = False, d_virtual = False, d_parent = NoParent,
     d_persistence_skip = False, d_localized = None, d_SELECT = False, d_type = None,
     d_key = False, d_annos = [], d_assocExpand = False \<rparr>"

text \<open>The empty object \<open>{}\<close>.\<close>

definition empty_def :: csn where
  "empty_def = Def no_attrs None"

abbreviation name :: "csn \<Rightarrow> string option" where "name d \<equiv> d_name (attrs d)"
abbreviation kind :: "csn \<Rightarrow> string option" where "kind d \<equiv> d_kind (attrs d)"
abbreviation keys :: "csn \<Rightarrow> keys option" where "keys d \<equiv> d_keys (attrs d)"
abbreviation target :: "csn \<Rightarrow> string option" where "target d \<equiv> d_target (attrs d)"

definition definitions :: "model \<Rightarrow> string \<Rightarrow> csn option" where
  "definitions m n = map_of m n"

text \<open>\<open>definition._target\<close>.\<close>

definition target_def :: "model \<Rightarrow> csn \<Rightarrow> csn option" where
  "target_def m d = (case target d of None \<Rightarrow> None | Some t \<Rightarrow> definitions m t)"

text \<open>\<open>elements[id]\<close> on an optional dictionary that is known to be present.\<close>

definition element_of :: "csn \<Rightarrow> string \<Rightarrow> csn option" where
  "element_of d n = (case elements d of None \<Rightarrow> None | Some es \<Rightarrow> map_of es n)"

text \<open>
  \<open>getFullName(node, name = node.name)\<close>: the flat name of a nested element. Reading
  \<open>node.parent.kind\<close> of a node without parent is a TypeError.
\<close>

fun getFullName_from :: "parent \<Rightarrow> string \<Rightarrow> string res" where
  "getFullName_from NoParent nm = Err TypeError"
| "getFullName_from (Parent k pn pp) nm =
     (if k = Some ''entity'' then Ok nm else getFullName_from pp (js_str pn @ ''_'' @ nm))"

definition getFullName :: "csn \<Rightarrow> string res" where
  "getFullName node = getFullName_from (d_parent (attrs node)) (js_str (name node))"

text \<open>
  \<open>getElementForRef(ref, def)\<close>: \<open>ref.reduce((prev, res) => prev?.elements?.[res] ||
  prev?._target?.elements[res], def)\<close>.
\<close>

fun getElementForRef :: "model \<Rightarrow> string list \<Rightarrow> csn option \<Rightarrow> csn option res" where
  "getElementForRef m [] prev = Ok prev"
| "getElementForRef m (r # rs) None = getElementForRef m rs None"
| "getElementForRef m (r # rs) (Some p) =
     (case element_of p r of
        Some e \<Rightarrow> getElementForRef m rs (Some e)
      | None \<Rightarrow>
          (case target_def m p of
             None \<Rightarrow> getElementForRef m rs None
           | Some t \<Rightarrow>
               (case elements t of
                  None \<Rightarrow> Err TypeError
                | Some es \<Rightarrow> getElementForRef m rs (map_of es r))))"


section \<open>Queries (CQN) with the annotations of the inference\<close>

text \<open>
  \<open>$refLink\<close>: the resolved definition of a path step, the definition in which the next step
  is resolved, and the table alias.
\<close>

record link =
  l_definition :: csn
  l_target :: "csn option"
  l_alias :: string
  l_onlyForeignKeyAccess :: bool
  l_skipExpand :: bool

text \<open>
  The properties of an object token or column besides its tag: \<open>as\<close>, \<open>cast\<close>, \<open>sort\<close>,
  \<open>nulls\<close>, \<open>param\<close>, its annotations (\<open>@...\<close>), and the hidden properties that the inference
  and the rewriter attach (\<open>$refLinks\<close>, \<open>flatName\<close>, \<open>isJoinRelevant\<close>, \<open>element\<close>, \<open>_csnPath\<close>).
\<close>

record meta =
  m_as :: "string option"
  m_cast :: "string option"
  m_sort :: "string option"
  m_nulls :: "string option"
  m_param :: bool
  m_key :: bool
  m_annos :: "(string \<times> val) list"
  m_refLinks :: "link list option"
  m_flatName :: "string option"
  m_isJoinRelevant :: bool
  m_element :: "csn option"
  m_csnPath :: "string option list option"

definition no_meta :: meta where
  "no_meta = \<lparr> m_as = None, m_cast = None, m_sort = None, m_nulls = None, m_param = False,
     m_key = False, m_annos = [], m_refLinks = None, m_flatName = None, m_isJoinRelevant = False,
     m_element = None, m_csnPath = None \<rparr>"

text \<open>
  A token of a token stream is a string (operator, keyword) or an object with exactly one
  of \<open>val\<close>, \<open>ref\<close>, \<open>list\<close>, \<open>xpr\<close>, \<open>func\<close>, \<open>SELECT\<close> (or \<open>join\<close>, in a from clause).
  \<open>TUndef\<close> is \<open>undefined\<close>: what an empty slot of an output array reads as; \<open>BEmpty\<close> is
  an object with none of the tags (\<open>{SELECT: undefined}\<close>). A path
  step is a string or an object \<open>{id, where}\<close> with a non-empty id. A column is \<open>'*'\<close>, a
  token, or a reference with a nested projection (\<open>expand\<close>, \<open>inline\<close>).
\<close>

datatype token = TStr string | TObj body meta | TUndef
  and body =
      BVal val
    | BRef "step list"
    | BList "token list"
    | BXpr "token list"
    | BFunc string "token list option"
    | BSelect select
    | BJoin string "token list" "token list"
    | BEmpty
  and step = SId string | SObj string "token list option"
  and column = CStar | CCol token | CExpand token "column list" | CInline token "column list"
  and select = Select (s_from: token) (s_columns: "column list option")
      (s_where: "token list option") (s_having: "token list option")
      (s_groupBy: "token list option") (s_orderBy: "token list option")
      (s_excluding: "string list option") (s_localized: bool)

text \<open>\<open>idOnly = ref => ref.id || ref\<close>, the \<open>where\<close> of a step, and a step as a string (as
  \<open>join\<close> and a property lookup see it).\<close>

fun idOnly :: "step \<Rightarrow> string" where
  "idOnly (SId s) = s"
| "idOnly (SObj s w) = s"

fun step_where :: "step \<Rightarrow> token list option" where
  "step_where (SId s) = None"
| "step_where (SObj s w) = w"

fun step_str :: "step \<Rightarrow> string" where
  "step_str (SId s) = s"
| "step_str (SObj s w) = ''[object Object]''"

text \<open>A reference \<open>{ref: [...]}\<close> of plain strings without further properties.\<close>

definition ref_of :: "string list \<Rightarrow> meta \<Rightarrow> token" where
  "ref_of names mt = TObj (BRef (map SId names)) mt"

definition val_of :: "val \<Rightarrow> token" where
  "val_of v = TObj (BVal v) no_meta"

section \<open>Flattening: \<open>getFlatColumnsFor\<close>\<close>

text \<open>
  \<open>getFlatColumnsFor(column, baseName, columnAlias, tableAlias, csnPath)\<close> with the default
  \<open>exclude = []\<close> and \<open>replace = []\<close> (only the wildcard expansion passes them), so that
  \<open>getReplacement\<close> finds nothing. The argument is \<open>undefined\<close>, an element of the model or a
  reference column; line 709 (a \<open>val\<close>, \<open>func\<close> or \<open>SELECT\<close> column returned as it is) needs a
  column that is no reference, which none of the callers below passes.

  The array \<open>csnPath\<close> is mutated (\<open>csnPath.push(element.name)\<close>) and shared: a leaf keeps the
  array of its call as \<open>_csnPath\<close>, a foreign key that is an association recurses on the same
  array, a structure recurses on a copy. \<open>getFlatColumnsFor_on\<close> works on the caller's array
  and returns its final content; the leaves that hold this array have \<open>m_csnPath = None\<close>
  until the call that owns the array ends (\<open>getFlatColumnsFor\<close>, \<open>flat_elements\<close>) and
  \<open>close_path\<close> writes the final content into them.
\<close>

datatype flatarg = AUndefined | AElem csn | ACol "step list" meta

text \<open>\<open>tableAlias ? { ref: [tableAlias, baseName] } : { ref: [baseName] }\<close>. The table alias
  is what \<open>getQuerySourceName\<close> returns: a string or the first step of the reference.\<close>

fun truthy_step :: "step option \<Rightarrow> bool" where
  "truthy_step None = False"
| "truthy_step (Some (SId s)) = (s \<noteq> [])"
| "truthy_step (Some (SObj s w)) = True"

definition flat_ref :: "step option \<Rightarrow> string \<Rightarrow> body" where
  "flat_ref tableAlias baseName =
     (if truthy_step tableAlias then BRef [the tableAlias, SId baseName] else BRef [SId baseName])"

definition close_path :: "string option list \<Rightarrow> token \<Rightarrow> token" where
  "close_path p t =
     (case t of
        TStr s \<Rightarrow> TStr s
      | TUndef \<Rightarrow> TUndef
      | TObj b mt \<Rightarrow> (if m_csnPath mt = None then TObj b (mt\<lparr>m_csnPath := Some p\<rparr>) else TObj b mt))"

text \<open>The leaf of a scalar element (lines 799-810).\<close>

definition flat_leaf ::
  "string option \<Rightarrow> string option \<Rightarrow> csn \<Rightarrow> string \<Rightarrow> string option \<Rightarrow> step option \<Rightarrow> token" where
  "flat_leaf cst srt element baseName columnAlias tableAlias =
     (let columnAlias' = (if cst \<noteq> None \<and> \<not> truthy columnAlias then Some baseName else columnAlias)
      in TObj (flat_ref tableAlias baseName)
           (no_meta\<lparr> m_cast := cst, m_sort := srt,
              m_as := (if truthy columnAlias' then columnAlias' else None),
              m_element := Some element \<rparr>))"

text \<open>The leaf of a scalar foreign key (lines 781-787).\<close>

definition flat_fk_leaf ::
  "fkey \<Rightarrow> csn \<Rightarrow> string \<Rightarrow> string option \<Rightarrow> step option \<Rightarrow> token" where
  "flat_fk_leaf fk fkElement fkBaseName columnAlias tableAlias =
     TObj (flat_ref tableAlias fkBaseName)
       (no_meta\<lparr> m_as := (if truthy columnAlias
                              then Some (the columnAlias @ ''_'' @ join ''_'' (fk_ref fk)) else None),
          m_element := Some fkElement \<rparr>)"

text \<open>The alias of a leaf of a structured foreign key (lines 765-771) and of a structure
  (line 794).\<close>

definition fk_struct_alias :: "fkey \<Rightarrow> string option \<Rightarrow> csn \<Rightarrow> string option" where
  "fk_struct_alias fk columnAlias e =
     (if truthy columnAlias
      then Some (the columnAlias @ ''_'' @
             (if truthy (fk_as fk) then the (fk_as fk) @ ''_'' @ js_str (name e)
              else join ''_'' (fk_ref fk) @ ''_'' @ js_str (name e)))
      else None)"

definition struct_alias :: "string option \<Rightarrow> csn \<Rightarrow> string option" where
  "struct_alias columnAlias e =
     (if truthy columnAlias then Some (the columnAlias @ ''_'' @ js_str (name e)) else None)"

type_synonym flat_call_m =
  "model \<Rightarrow> flatarg \<Rightarrow> string option \<Rightarrow> string option \<Rightarrow> step option \<Rightarrow>
   string option list \<Rightarrow> (token list option \<times> string option list) res"

type_synonym flat_call =
  "flatarg \<Rightarrow> string option \<Rightarrow> string option \<Rightarrow> step option \<Rightarrow> string option list \<Rightarrow>
   (token list option \<times> string option list) res"

text \<open>\<open>Object.values(elements).forEach(e => flat.push(...getFlatColumnsFor(e, baseName, alias,
  tableAlias, [...csnPath])))\<close>: every element gets a copy of the path.\<close>

fun flat_elements ::
  "flat_call \<Rightarrow> csn list \<Rightarrow> string \<Rightarrow> (csn \<Rightarrow> string option) \<Rightarrow> step option \<Rightarrow>
   string option list \<Rightarrow> token list res" where
  "flat_elements call [] baseName aliasOf tableAlias csnPath = Ok []"
| "flat_elements call (e # es) baseName aliasOf tableAlias csnPath =
     bind (call (AElem e) (Some baseName) (aliasOf e) tableAlias csnPath)
       (\<lambda>(r, p).
          case r of
            None \<Rightarrow> Err TypeError
          | Some cols \<Rightarrow>
              bind (flat_elements call es baseName aliasOf tableAlias csnPath)
                (\<lambda>cols'. Ok (map (close_path p) cols @ cols')))"

text \<open>\<open>fkBaseName\<close> (lines 756-760).\<close>

definition fk_base_name :: "link option \<Rightarrow> string \<Rightarrow> fkey \<Rightarrow> string" where
  "fk_base_name leafAssoc baseName fk =
     (if (case leafAssoc of None \<Rightarrow> True | Some la \<Rightarrow> l_onlyForeignKeyAccess la)
      then baseName @ ''_'' @
             (if truthy (fk_as fk) then the (fk_as fk) else js_str (last_opt (fk_ref fk)))
      else js_str (last_opt (fk_ref fk)))"

text \<open>One foreign key of \<open>element.keys.forEach(fk => ...)\<close> (lines 754-789).\<close>

definition flat_key ::
  "flat_call \<Rightarrow> model \<Rightarrow> link option \<Rightarrow> csn \<Rightarrow> string \<Rightarrow> string option \<Rightarrow> step option \<Rightarrow>
   fkey \<Rightarrow> string option list \<Rightarrow> (token list \<times> string option list) res" where
  "flat_key call m leafAssoc element baseName columnAlias tableAlias fk csnPath =
     bind (getElementForRef m (fk_ref fk) (target_def m element))
       (\<lambda>found.
          case found of
            None \<Rightarrow> Err TypeError
          | Some fkElement \<Rightarrow>
              (case elements fkElement of
                 Some es \<Rightarrow>
                   bind (flat_elements call (map snd es) (fk_base_name leafAssoc baseName fk)
                           (fk_struct_alias fk columnAlias) tableAlias
                           (csnPath @ [last_opt (fk_ref fk)]))
                     (\<lambda>cols. Ok (cols, csnPath))
               | None \<Rightarrow>
                   (if d_isAssociation (attrs fkElement) then
                      bind (call (AElem fkElement) (Some baseName) columnAlias tableAlias csnPath)
                        (\<lambda>(r, p). case r of None \<Rightarrow> Err TypeError | Some cols \<Rightarrow> Ok (cols, p))
                    else Ok ([flat_fk_leaf fk fkElement (fk_base_name leafAssoc baseName fk)
                                columnAlias tableAlias], csnPath))))"

fun flat_keys ::
  "flat_call \<Rightarrow> model \<Rightarrow> link option \<Rightarrow> csn \<Rightarrow> string \<Rightarrow> string option \<Rightarrow> step option \<Rightarrow>
   fkey list \<Rightarrow> string option list \<Rightarrow> (token list \<times> string option list) res" where
  "flat_keys call m leafAssoc element baseName columnAlias tableAlias [] csnPath = Ok ([], csnPath)"
| "flat_keys call m leafAssoc element baseName columnAlias tableAlias (fk # fks) csnPath =
     bind (flat_key call m leafAssoc element baseName columnAlias tableAlias fk csnPath)
       (\<lambda>(cols, p).
          bind (flat_keys call m leafAssoc element baseName columnAlias tableAlias fks p)
            (\<lambda>(cols', p'). Ok (cols @ cols', p')))"

text \<open>From \<open>csnPath.push(element.name)\<close> on (lines 750-810). \<open>forEach\<close> on the key aspect of an
  entity, which is no array, is a TypeError.\<close>

definition flat_body ::
  "flat_call \<Rightarrow> model \<Rightarrow> string option \<Rightarrow> string option \<Rightarrow> link option \<Rightarrow> csn \<Rightarrow> string \<Rightarrow>
   string option \<Rightarrow> step option \<Rightarrow> string option list \<Rightarrow>
   (token list option \<times> string option list) res" where
  "flat_body call m cst srt leafAssoc element baseName columnAlias tableAlias csnPath =
     (case keys element of
        Some (KeyNames ks) \<Rightarrow> Err TypeError
      | Some (FKeys fks) \<Rightarrow>
          bind (flat_keys call m leafAssoc element baseName columnAlias tableAlias fks
                  (csnPath @ [name element]))
            (\<lambda>(cols, p). Ok (Some cols, p))
      | None \<Rightarrow>
          (case elements element of
             Some es \<Rightarrow>
               bind (flat_elements call (map snd es) baseName (struct_alias columnAlias)
                       tableAlias (csnPath @ [name element]))
                 (\<lambda>cols. Ok (Some cols, csnPath @ [name element]))
           | None \<Rightarrow>
               Ok (Some [flat_leaf cst srt element baseName columnAlias tableAlias],
                   csnPath @ [name element])))"

text \<open>\<open>baseName = baseName ? `${baseName}_${element.name}` : getFullName(element)\<close>.\<close>

definition next_base_name :: "string option \<Rightarrow> csn \<Rightarrow> string res" where
  "next_base_name baseName element =
     (if truthy baseName then Ok (the baseName @ ''_'' @ js_str (name element))
      else getFullName element)"

text \<open>The join-relevant case (lines 717-725): the last association of the path.\<close>

definition flat_join_relevant ::
  "flat_call \<Rightarrow> model \<Rightarrow> step list \<Rightarrow> meta \<Rightarrow> csn \<Rightarrow> string option \<Rightarrow> step option \<Rightarrow>
   string option list \<Rightarrow> (token list option \<times> string option list) res" where
  "flat_join_relevant call m ref mt element columnAlias tableAlias csnPath =
     (case m_refLinks mt of
        None \<Rightarrow> Err TypeError
      | Some links \<Rightarrow>
          (case last_opt links of
             None \<Rightarrow> Err TypeError
           | Some leaf \<Rightarrow>
               (case find (\<lambda>l. d_isAssociation (attrs (l_definition l))) (rev links) of
                  None \<Rightarrow> Err TypeError
                | Some leafAssoc \<Rightarrow>
                    (if (case d_foreignKeys (attrs (l_definition leafAssoc)) of
                           None \<Rightarrow> False
                         | Some fks \<Rightarrow> l_alias leaf \<in> set fks)
                     then bind (getFullName (l_definition leafAssoc))
                            (\<lambda>bn. flat_body call m (m_cast mt) (m_sort mt) (Some leafAssoc)
                               (l_definition leafAssoc) bn
                               (Some (join ''_'' (map idOnly (butlast ref)))) tableAlias csnPath)
                     else bind (getFullName (l_definition leaf))
                            (\<lambda>bn. flat_body call m (m_cast mt) (m_sort mt) (Some leafAssoc)
                               element bn columnAlias tableAlias csnPath)))))"

text \<open>The element a column stands for: \<open>$refLinks ? $refLinks[$refLinks.length - 1].definition
  : column\<close>; a column without links has none of the properties of a definition.\<close>

definition leaf_element :: "meta \<Rightarrow> csn res" where
  "leaf_element mt =
     (case m_refLinks mt of
        None \<Rightarrow> Ok empty_def
      | Some links \<Rightarrow>
          (case last_opt links of None \<Rightarrow> Err TypeError | Some l \<Rightarrow> Ok (l_definition l)))"

primrec getFlatColumnsFor_on :: "nat \<Rightarrow> flat_call_m" where
  "getFlatColumnsFor_on 0 = (\<lambda>m column baseName columnAlias tableAlias csnPath. NoFuel)"
| "getFlatColumnsFor_on (Suc n) = (\<lambda>m column baseName columnAlias tableAlias csnPath.
     case column of
       AUndefined \<Rightarrow> Ok (None, csnPath)
     | AElem element \<Rightarrow>
         (if d_on (attrs element) \<noteq> None then Ok (Some [], csnPath)
          else if d_virtual (attrs element) then Ok (Some [], csnPath)
          else bind (next_base_name baseName element)
                 (\<lambda>bn. flat_body (getFlatColumnsFor_on n m) m None None None element bn
                    columnAlias tableAlias csnPath))
     | ACol ref mt \<Rightarrow>
         bind (leaf_element mt)
           (\<lambda>element.
              if d_on (attrs element) \<noteq> None then Ok (Some [], csnPath)
              else if d_virtual (attrs element) then Ok (Some [], csnPath)
              else if \<not> m_isJoinRelevant mt \<and> truthy (m_flatName mt) then
                flat_body (getFlatColumnsFor_on n m) m (m_cast mt) (m_sort mt) None element
                  (the (m_flatName mt)) columnAlias tableAlias csnPath
              else if m_isJoinRelevant mt then
                flat_join_relevant (getFlatColumnsFor_on n m) m ref mt element columnAlias
                  tableAlias csnPath
              else bind (next_base_name baseName element)
                     (\<lambda>bn. flat_body (getFlatColumnsFor_on n m) m (m_cast mt) (m_sort mt) None
                        element bn columnAlias tableAlias csnPath)))"

definition getFlatColumnsFor ::
  "nat \<Rightarrow> model \<Rightarrow> flatarg \<Rightarrow> string option \<Rightarrow> string option \<Rightarrow> step option \<Rightarrow>
   token list option res" where
  "getFlatColumnsFor n m column baseName columnAlias tableAlias =
     bind (getFlatColumnsFor_on n m column baseName columnAlias tableAlias [])
       (\<lambda>(r, p). Ok (map_option (map (close_path p)) r))"


section \<open>Copies\<close>

text \<open>
  The hidden properties are defined with \<open>Object.defineProperty\<close> and are not enumerable:
  the spread \<open>{...token}\<close> and the deep \<open>copy(obj)\<close> (which walks \<open>Object.keys\<close>) drop them.
\<close>

definition strip_hidden :: "meta \<Rightarrow> meta" where
  "strip_hidden mt = mt\<lparr> m_refLinks := None, m_flatName := None, m_isJoinRelevant := False,
     m_element := None, m_csnPath := None \<rparr>"

definition spread :: "token \<Rightarrow> token" where
  "spread t = (case t of TObj b mt \<Rightarrow> TObj b (strip_hidden mt) | TStr s \<Rightarrow> TStr s | TUndef \<Rightarrow> TUndef)"

primrec copy :: "token \<Rightarrow> token"
  and copy_body :: "body \<Rightarrow> body"
  and copy_step :: "step \<Rightarrow> step"
  and copy_column :: "column \<Rightarrow> column"
  and copy_select :: "select \<Rightarrow> select"
where
  "copy (TStr s) = TStr s"
| "copy (TObj b mt) = TObj (copy_body b) (strip_hidden mt)"
| "copy TUndef = TUndef"
| "copy_body (BVal v) = BVal v"
| "copy_body (BRef steps) = BRef (map copy_step steps)"
| "copy_body (BList ts) = BList (map copy ts)"
| "copy_body (BXpr ts) = BXpr (map copy ts)"
| "copy_body (BFunc f args) = BFunc f (map_option (map copy) args)"
| "copy_body (BSelect q) = BSelect (copy_select q)"
| "copy_body (BJoin k args cond) = BJoin k (map copy args) (map copy cond)"
| "copy_body BEmpty = BEmpty"
| "copy_step (SId s) = SId s"
| "copy_step (SObj s w) = SObj s (map_option (map copy) w)"
| "copy_column CStar = CStar"
| "copy_column (CCol t) = CCol (copy t)"
| "copy_column (CExpand t cs) = CExpand (copy t) (map copy_column cs)"
| "copy_column (CInline t cs) = CInline (copy t) (map copy_column cs)"
| "copy_select (Select f cs w h g ob ex loc) =
     Select (copy f) (map_option (map copy_column) cs) (map_option (map copy) w)
       (map_option (map copy) h) (map_option (map copy) g) (map_option (map copy) ob) ex loc"

section \<open>The environment of the rewriter\<close>

text \<open>
  What the closures of \<open>cqn4sql\<close> read of the inferred query and of the model:
  \<open>inferred.sources\<close>, \<open>inferred.$combinedElements\<close> (name to the list of \<open>{index, tableAlias}\<close>),
  \<open>inferred.SELECT?.localized\<close>, the model, and \<open>pseudos\<close> (required from
  \<open>./infer/pseudos\<close>, which is not part of the sources at hand: a parameter).
\<close>

record env =
  e_model :: model
  e_sources :: "(string \<times> csn) list"
  e_combined :: "(string \<times> (string \<times> csn) list) list"
  e_localized :: bool
  e_pseudos :: csn

text \<open>
  The collaborators that are parameters here: \<open>inferred.joinTree.addNextAvailableTableAlias\<close>
  (the join tree, \<open>./infer/join-tree\<close>, is not part of the sources at hand; the join tree is
  the state \<open>'j\<close>), \<open>transformSubquery\<close> (the rewrite of a nested query: \<open>cqn4sql\<close> itself, with
  an inference and a join tree of its own) and \<open>calculateOnCondition\<close> (lines 1291-1424, the
  rewrite of the on-condition of an unmanaged association). Every theorem below holds for
  all of them.
\<close>

record 'j hooks =
  h_addNextAvailableTableAlias :: "'j \<Rightarrow> string \<Rightarrow> string \<times> 'j"
  h_transformSubquery :: "token \<Rightarrow> token res"
  h_calculateOnCondition :: "link \<Rightarrow> link \<Rightarrow> bool \<Rightarrow> ontoken list \<Rightarrow> token list res"

text \<open>\<open>pseudos.elements[token.ref?.[0]]\<close>.\<close>

definition is_pseudo_ref :: "env \<Rightarrow> token \<Rightarrow> bool" where
  "is_pseudo_ref env t =
     (case t of
        TObj (BRef (st # rest)) mt \<Rightarrow> element_of (e_pseudos env) (step_str st) \<noteq> None
      | _ \<Rightarrow> False)"

definition asXpr :: "token list \<Rightarrow> token" where
  "asXpr thing = TObj (BXpr thing) no_meta"

text \<open>\<open>hasLogicalOr\<close>: \<open>tokenStream.some(t => t in { OR: true, or: true })\<close>.\<close>

definition hasLogicalOr :: "token list \<Rightarrow> bool" where
  "hasLogicalOr tokenStream =
     (\<exists>t \<in> set tokenStream.
        case t of TStr s \<Rightarrow> js_in s [(''OR'', True), (''or'', True)] | _ \<Rightarrow> False)"

definition isStructured :: "csn option \<Rightarrow> bool" where
  "isStructured elt =
     (case elt of None \<Rightarrow> False | Some d \<Rightarrow> elements d \<noteq> None \<and> kind d = Some ''element'')"

definition isAssocOrStruct :: "csn option \<Rightarrow> bool" where
  "isAssocOrStruct elt =
     (case elt of None \<Rightarrow> False
      | Some d \<Rightarrow> keys d \<noteq> None \<or> (elements d \<noteq> None \<and> kind d = Some ''element''))"

definition isLocalized :: "env \<Rightarrow> csn \<Rightarrow> bool" where
  "isLocalized env d = (e_localized env \<and> d_localized (attrs d) \<noteq> Some False)"

text \<open>\<open>localized(definition)\<close>: the name of the localized view, if the query is localized and
  the model has one.\<close>

definition localized :: "env \<Rightarrow> csn \<Rightarrow> string option" where
  "localized env d =
     (if \<not> isLocalized env d then name d
      else (case definitions (e_model env) (''localized.'' @ js_str (name d)) of
              None \<Rightarrow> name d
            | Some view \<Rightarrow> (if truthy (name view) then name view else name d)))"

definition assocTarget :: "env \<Rightarrow> csn \<Rightarrow> csn option" where
  "assocTarget env assoc = target_def (e_model env) assoc"

text \<open>
  \<open>getQuerySourceName(node, $baseLink)\<close>: the alias under which the source of a reference is
  addressed.
\<close>

definition getCombinedElementAlias :: "env \<Rightarrow> step list \<Rightarrow> step res" where
  "getCombinedElementAlias env ref =
     (case ref of
        [] \<Rightarrow> Err TypeError
      | st # rest \<Rightarrow>
          (case map_of (e_combined env) (idOnly st) of
             Some ((index, tableAlias) # others) \<Rightarrow> Ok (SId (last_segment index))
           | _ \<Rightarrow> Err TypeError))"

definition getQuerySourceName :: "env \<Rightarrow> token \<Rightarrow> link option \<Rightarrow> step res" where
  "getQuerySourceName env node baseLink =
     (case node of
        TObj (BRef ref) mt \<Rightarrow>
          (case m_refLinks mt of
             None \<Rightarrow> Err InvalidNode
           | Some links \<Rightarrow>
               (case baseLink of
                  Some bl \<Rightarrow> Ok (SId (l_alias bl))
                | None \<Rightarrow>
                    (if m_isJoinRelevant mt then
                       (case find (\<lambda>l. d_isAssociation (attrs (l_definition l)) \<and>
                                        \<not> l_onlyForeignKeyAccess l) (rev links) of
                          None \<Rightarrow> Err TypeError
                        | Some l \<Rightarrow> Ok (SId (l_alias l)))
                     else
                       (case links of
                          [] \<Rightarrow> Err TypeError
                        | first # others \<Rightarrow>
                            (if (d_SELECT (attrs (l_definition first)) \<or>
                                 kind (l_definition first) = Some ''entity'') \<and>
                                truthy_step (case ref of [] \<Rightarrow> None | st # rest \<Rightarrow> Some st)
                             then Ok (hd ref)
                             else getCombinedElementAlias env ref)))))
      | _ \<Rightarrow> Err InvalidNode)"


section \<open>Foreign keys and parent keys of an association\<close>

text \<open>
  \<open>getParentEntity(element)\<close> (of \<open>backlinkFor\<close>): the entity that contains the element. The
  parent object is found in the model under the name that the parent chain records.
\<close>

fun parent_entity_name :: "parent \<Rightarrow> string option res" where
  "parent_entity_name NoParent = Err TypeError"
| "parent_entity_name (Parent k n pp) =
     (if k = Some ''entity'' then Ok n else parent_entity_name pp)"

definition getParentEntity :: "model \<Rightarrow> csn \<Rightarrow> csn option res" where
  "getParentEntity m element =
     (if kind element = Some ''entity'' then Ok (Some element)
      else bind (parent_entity_name (d_parent (attrs element)))
             (\<lambda>n. Ok (definitions m (js_str n))))"

text \<open>
  \<open>backlinkFor(assoc)\<close>: the elements compared with \<open>$self\<close> in the on-condition, which is
  read in steps of three tokens. \<open>None\<close> is the \<open>null\<close> returned for an association without
  on-condition.
\<close>

definition is_self :: "ontoken option \<Rightarrow> bool" where
  "is_self t = (t = Some (ORef [''$self'']))"

fun backlink_tokens :: "ontoken list \<Rightarrow> ontoken option list" where
  "backlink_tokens [] = []"
| "backlink_tokens (lhs # rest) =
     (let rhs = (case rest of op # r # rest' \<Rightarrow> Some r | _ \<Rightarrow> None) in
      (if is_self (Some lhs) then [rhs] else if is_self rhs then [Some lhs] else [])
      @ backlink_tokens (drop 2 rest))"

definition backlink_element :: "model \<Rightarrow> csn \<Rightarrow> ontoken option \<Rightarrow> csn option res" where
  "backlink_element m assoc each =
     (case each of
        Some (ORef r) \<Rightarrow>
          (if r \<noteq> [] \<and> js_in (hd r) [(''$self'', True), (''$projection'', True)]
           then bind (getParentEntity m assoc) (\<lambda>pe. getElementForRef m (tl r) pe)
           else getElementForRef m (tl r) (target_def m assoc))
      | _ \<Rightarrow> Err TypeError)"

fun mapM :: "('a \<Rightarrow> 'b res) \<Rightarrow> 'a list \<Rightarrow> 'b list res" where
  "mapM f [] = Ok []"
| "mapM f (x # xs) = bind (f x) (\<lambda>y. bind (mapM f xs) (\<lambda>ys. Ok (y # ys)))"

definition backlinkFor :: "model \<Rightarrow> csn \<Rightarrow> csn option list option res" where
  "backlinkFor m assoc =
     (case d_on (attrs assoc) of
        None \<Rightarrow> Ok None
      | Some cond \<Rightarrow> bind (mapM (backlink_element m assoc) (backlink_tokens cond))
                       (\<lambda>bs. Ok (Some bs)))"

text \<open>\<open>backlinkFor(assoc)?.[0]\<close>.\<close>

definition first_backlink :: "model \<Rightarrow> csn \<Rightarrow> csn option res" where
  "first_backlink m assoc =
     bind (backlinkFor m assoc)
       (\<lambda>bl. case bl of Some (b # bs) \<Rightarrow> Ok b | _ \<Rightarrow> Ok None)"

text \<open>Reading \<open>x.as\<close> and \<open>x.ref\<close> of a flat column, and \<open>x.ref.unshift(alias)\<close>.\<close>

definition tok_as :: "token \<Rightarrow> string option" where
  "tok_as t = (case t of TObj b mt \<Rightarrow> m_as mt | _ \<Rightarrow> None)"

definition tok_ref :: "token \<Rightarrow> step list option" where
  "tok_ref t = (case t of TObj (BRef steps) mt \<Rightarrow> Some steps | _ \<Rightarrow> None)"

definition ref_unshift :: "string \<Rightarrow> token \<Rightarrow> token res" where
  "ref_unshift alias t =
     (case t of TObj (BRef steps) mt \<Rightarrow> Ok (TObj (BRef (SId alias # steps)) mt)
      | _ \<Rightarrow> Err TypeError)"

definition nth_opt :: "'a list \<Rightarrow> nat \<Rightarrow> 'a option" where
  "nth_opt xs i = (if i < length xs then Some (xs ! i) else None)"

text \<open>
  One pair of \<open>getParentKeyForeignKeyPairs\<close> (lines 1460-1487): \<open>refInTarget.as ?
  `${flatAssociationName}_${refInTarget.as}` : refInTarget.ref[0]\<close> and its mirror.
\<close>

definition side_name :: "string \<Rightarrow> token \<Rightarrow> step res" where
  "side_name flatAssociationName t =
     (case t of
        TObj b mt \<Rightarrow>
          (if truthy (m_as mt) then Ok (SId (flatAssociationName @ ''_'' @ the (m_as mt)))
           else (case b of
                   BRef (st # rest) \<Rightarrow> Ok st
                 | BRef [] \<Rightarrow> Ok (SId ''undefined'')
                 | _ \<Rightarrow> Err TypeError))
      | _ \<Rightarrow> Err TypeError)"

definition key_pair ::
  "bool \<Rightarrow> bool \<Rightarrow> string \<Rightarrow> link \<Rightarrow> token option \<Rightarrow> token option \<Rightarrow> (token option \<times> token) res" where
  "key_pair flipSourceAndTarget hasBacklink flatAssociationName targetSideRefLink parentKey foreignKey =
     (if flipSourceAndTarget then
        (let refInTarget = (if hasBacklink then parentKey else foreignKey);
             refInSource = (if hasBacklink then foreignKey else parentKey)
         in case refInTarget of
              None \<Rightarrow> Err TypeError
            | Some rt \<Rightarrow>
                bind (side_name flatAssociationName rt)
                  (\<lambda>n. Ok (refInSource,
                            TObj (BRef [SId (l_alias targetSideRefLink), n]) no_meta)))
      else
        (let refInTarget = (if hasBacklink then foreignKey else parentKey);
             refInSource = (if hasBacklink then parentKey else foreignKey)
         in case refInSource of
              None \<Rightarrow> Err TypeError
            | Some rs \<Rightarrow>
                bind (side_name flatAssociationName rs)
                  (\<lambda>n. case refInTarget of
                          None \<Rightarrow> Err TypeError
                        | Some rt \<Rightarrow>
                            (case tok_ref rt of
                               None \<Rightarrow> Err TypeError
                             | Some steps \<Rightarrow>
                                 Ok (Some (TObj (BRef [n]) no_meta),
                                     TObj (BRef (SId (l_alias targetSideRefLink) # steps))
                                       no_meta)))))"

text \<open>The argument of \<open>getFlatColumnsFor\<close> for a looked-up element that may be undefined.\<close>

definition arg_of :: "csn option \<Rightarrow> flatarg" where
  "arg_of e = (case e of None \<Rightarrow> AUndefined | Some d \<Rightarrow> AElem d)"

text \<open>The pairs of one foreign key (the body of \<open>keys.forEach\<close>, lines 1453-1488).\<close>

definition key_pairs_of ::
  "nat \<Rightarrow> model \<Rightarrow> csn \<Rightarrow> bool \<Rightarrow> link \<Rightarrow> bool \<Rightarrow> fkey \<Rightarrow> (token option \<times> token) list res" where
  "key_pairs_of n m src hasBacklink targetSideRefLink flipSourceAndTarget fk =
     bind (getElementForRef m (fk_ref fk) (target_def m src))
       (\<lambda>elem.
     bind (getFlatColumnsFor n m (arg_of elem) (Some (join ''_'' (butlast (fk_ref fk)))) None None)
       (\<lambda>flatParentKeys.
     bind (getFullName src)
       (\<lambda>flatAssociationName.
     bind (getFlatColumnsFor n m (arg_of elem) (Some flatAssociationName) (fk_as fk) None)
       (\<lambda>flatForeignKeys.
          case flatForeignKeys of
            None \<Rightarrow> Err TypeError
          | Some ffk \<Rightarrow>
              mapM (\<lambda>i. key_pair flipSourceAndTarget hasBacklink flatAssociationName
                          targetSideRefLink
                          (case flatParentKeys of None \<Rightarrow> None | Some fpk \<Rightarrow> nth_opt fpk i)
                          (nth_opt ffk i))
                [0 ..< length ffk]))))"

text \<open>
  \<open>getParentKeyForeignKeyPairs(assoc, targetSideRefLink, flipSourceAndTarget)\<close>: the list of
  \<open>{sourceSide, targetSide}\<close>. A source side that is \<open>undefined\<close> is \<open>None\<close>.
\<close>

definition getParentKeyForeignKeyPairs ::
  "nat \<Rightarrow> model \<Rightarrow> csn \<Rightarrow> link \<Rightarrow> bool \<Rightarrow> (token option \<times> token) list res" where
  "getParentKeyForeignKeyPairs n m assoc targetSideRefLink flipSourceAndTarget =
     bind (first_backlink m assoc)
       (\<lambda>backlink.
          let src = (case backlink of None \<Rightarrow> assoc | Some b \<Rightarrow> b) in
          case keys src of
            None \<Rightarrow> Ok []
          | Some (KeyNames ks) \<Rightarrow> Err TypeError
          | Some (FKeys fks) \<Rightarrow>
              bind (mapM (key_pairs_of n m src (backlink \<noteq> None) targetSideRefLink
                            flipSourceAndTarget) fks)
                (\<lambda>pss. Ok (concat pss)))"

text \<open>
  The comparisons \<open>sourceSide = targetSide\<close> of the pairs, joined with \<open>and\<close>, after
  \<open>sourceSide.ref.unshift(alias)\<close> (lines 1270-1275 and 1512-1517).
\<close>

definition pair_tokens :: "string \<Rightarrow> (token option \<times> token) \<Rightarrow> token list res" where
  "pair_tokens alias pr =
     (case fst pr of
        None \<Rightarrow> Err TypeError
      | Some sourceSide \<Rightarrow>
          bind (ref_unshift alias sourceSide) (\<lambda>s. Ok [s, TStr ''='', snd pr]))"

fun and_join :: "token list list \<Rightarrow> token list" where
  "and_join [] = []"
| "and_join [c] = c"
| "and_join (c # d # ds) = c @ [TStr ''and''] @ and_join (d # ds)"

text \<open>\<open>onCondFor(assocRefLink, targetSideRefLink, inWhereOrJoin)\<close>; \<open>None\<close> is \<open>undefined\<close>, for
  a definition with neither \<open>keys\<close> nor \<open>on\<close>.\<close>

definition onCondFor ::
  "'j hooks \<Rightarrow> nat \<Rightarrow> model \<Rightarrow> link \<Rightarrow> link \<Rightarrow> bool \<Rightarrow> token list option res" where
  "onCondFor hooks n m assocRefLink targetSideRefLink inWhereOrJoin =
     (if keys (l_definition assocRefLink) \<noteq> None then
        bind (getParentKeyForeignKeyPairs n m (l_definition assocRefLink) targetSideRefLink True)
          (\<lambda>fkPkPairs.
             bind (mapM (pair_tokens (l_alias assocRefLink)) fkPkPairs)
               (\<lambda>cs. Ok (Some (and_join cs))))
      else (case d_on (attrs (l_definition assocRefLink)) of
              Some cond \<Rightarrow>
                bind (h_calculateOnCondition hooks assocRefLink targetSideRefLink inWhereOrJoin cond)
                  (\<lambda>r. Ok (Some r))
            | None \<Rightarrow> Ok None))"


section \<open>Comparison of structures: \<open>expandComparison\<close>\<close>

text \<open>
  \<open>flattenWithBaseName(def)\<close> for a token whose \<open>$refLinks\<close> the caller has read already
  (line 1049, \<open>if (!def.$refLinks) return def\<close>, is dead for both callers).
\<close>

definition flattenWithBaseName :: "env \<Rightarrow> nat \<Rightarrow> token \<Rightarrow> link list \<Rightarrow> token list res" where
  "flattenWithBaseName env n tok links =
     (case tok of
        TObj (BRef ref) mt \<Rightarrow>
          bind (if 1 < length ref then
                  (case links of
                     [] \<Rightarrow> Err TypeError
                   | first # others \<Rightarrow>
                       getQuerySourceName env tok
                         (if d_isAssociation (attrs (l_definition first)) then Some first else None))
                else getQuerySourceName env tok None)
            (\<lambda>tableAlias.
               case last_opt links of
                 None \<Rightarrow> Err TypeError
               | Some leaf \<Rightarrow>
                   (case d_parent (attrs (l_definition leaf)) of
                      NoParent \<Rightarrow> Err TypeError
                    | Parent k pn pp \<Rightarrow>
                        bind (getFlatColumnsFor n (e_model env) (AElem (l_definition leaf))
                                (if k \<noteq> Some ''entity''
                                 then Some (join ''_'' (map step_str (butlast ref))) else None)
                                None (Some tableAlias))
                          (\<lambda>r. case r of None \<Rightarrow> Err TypeError | Some cols \<Rightarrow> Ok cols)))
      | _ \<Rightarrow> Err TypeError)"

text \<open>The operators of a comparison of structures (lines 79-90).\<close>

definition eqOps :: "string list list" where
  "eqOps = [[''is''], [''='']]"

definition notEqOps :: "string list list" where
  "notEqOps = [[''is'', ''not''], [''<>''], [''!='']]"

definition notSupportedOps :: "string list list" where
  "notSupportedOps = [[''>''], [''<''], [''>=''], [''<='']]"

definition allOps :: "string list list" where
  "allOps = eqOps @ eqOps @ notEqOps @ notSupportedOps"

text \<open>\<open>ops.some(([firstOp]) => firstOp === t)\<close> and \<open>ops.some(([, secondOp]) => secondOp === t)\<close>
  for a token \<open>t\<close> that may be \<open>undefined\<close>.\<close>

definition is_first_op :: "string list list \<Rightarrow> token option \<Rightarrow> bool" where
  "is_first_op ops t = (\<exists>operator \<in> set ops. map_option TStr (nth_opt operator 0) = t)"

definition is_second_op :: "string list list \<Rightarrow> token option \<Rightarrow> bool" where
  "is_second_op ops t = (\<exists>operator \<in> set ops. map_option TStr (nth_opt operator 1) = t)"

text \<open>\<open>notEqOps.some(([f, s]) => operator[0] === f && operator[1] === s) ? 'or' : 'and'\<close>.\<close>

definition boolOp :: "token list \<Rightarrow> token" where
  "boolOp operator =
     (if \<exists>ne \<in> set notEqOps. nth_opt operator 0 = map_option TStr (nth_opt ne 0) \<and>
                               nth_opt operator 1 = map_option TStr (nth_opt ne 1)
      then TStr ''or'' else TStr ''and'')"

definition csn_path_of :: "token \<Rightarrow> string option list res" where
  "csn_path_of t =
     (case t of TObj b mt \<Rightarrow> (case m_csnPath mt of None \<Rightarrow> Err TypeError | Some p \<Rightarrow> Ok p)
      | _ \<Rightarrow> Err TypeError)"

text \<open>\<open>lhs_csnPath.slice(1).every((val, i) => val === rhs_csnPath[i + 1])\<close>: a step beyond the
  end of the right path reads as \<open>undefined\<close>.\<close>

definition same_path :: "string option list \<Rightarrow> token \<Rightarrow> bool res" where
  "same_path lhsTail rhs =
     (if lhsTail = [] then Ok True
      else bind (csn_path_of rhs)
             (\<lambda>rp. Ok (\<forall>i < length lhsTail.
                          lhsTail ! i = (if i + 1 < length rp then rp ! (i + 1) else None))))"

fun findIndex_path :: "string option list \<Rightarrow> token list \<Rightarrow> nat option res" where
  "findIndex_path lhsTail [] = Ok None"
| "findIndex_path lhsTail (r # rs) =
     bind (same_path lhsTail r)
       (\<lambda>b. if b then Ok (Some 0)
             else bind (findIndex_path lhsTail rs) (\<lambda>k. Ok (map_option Suc k)))"

text \<open>The object \<open>{ ref }\<close> made of the reference of a left leaf.\<close>

definition ref_only :: "token \<Rightarrow> token" where
  "ref_only t = (case tok_ref t of Some steps \<Rightarrow> TObj (BRef steps) no_meta
                 | None \<Rightarrow> TObj BEmpty no_meta)"

text \<open>
  The loop \<open>while (flatLhs.length > 0)\<close> (lines 1013-1028): each left leaf takes the first
  right leaf with its path out of \<open>flatRhs\<close>; a left leaf without partner is skipped. It
  returns the tokens and what is left of \<open>flatRhs\<close>.
\<close>

fun match_leaves ::
  "token list \<Rightarrow> token list \<Rightarrow> token list \<Rightarrow> (token list \<times> token list) res" where
  "match_leaves operator [] flatRhs = Ok ([], flatRhs)"
| "match_leaves operator (l # flatLhs) flatRhs =
     bind (csn_path_of l)
       (\<lambda>lp. bind (findIndex_path (tl lp) flatRhs)
          (\<lambda>found.
             case found of
               None \<Rightarrow> match_leaves operator flatLhs flatRhs
             | Some k \<Rightarrow>
                 bind (match_leaves operator flatLhs (take k flatRhs @ drop (Suc k) flatRhs))
                   (\<lambda>(rest, left).
                      Ok ([ref_only l] @ operator @ [flatRhs ! k] @
                          (if flatLhs \<noteq> [] then [boolOp operator] else []) @ rest, left))))"

text \<open>The comparison of every leaf with a value (lines 1041-1044).\<close>

fun compare_each :: "token list \<Rightarrow> token \<Rightarrow> token list \<Rightarrow> token list" where
  "compare_each operator v [] = []"
| "compare_each operator v [c] = [c] @ operator @ [v]"
| "compare_each operator v (c # d # ds) =
     [c] @ operator @ [v] @ [boolOp operator] @ compare_each operator v (d # ds)"

definition links_of :: "token \<Rightarrow> link list option" where
  "links_of t = (case t of TObj b mt \<Rightarrow> m_refLinks mt | _ \<Rightarrow> None)"

text \<open>\<open>value.val === null || value === 'null'\<close>.\<close>

definition is_null_value :: "token \<Rightarrow> bool" where
  "is_null_value v =
     (case v of TStr s \<Rightarrow> s = ''null'' | TObj b mt \<Rightarrow> b = BVal VNull | TUndef \<Rightarrow> False)"

definition expandComparison :: "env \<Rightarrow> nat \<Rightarrow> token \<Rightarrow> token list \<Rightarrow> token \<Rightarrow> token list res" where
  "expandComparison env n tok operator v =
     (case links_of tok of
        None \<Rightarrow> Err TypeError
      | Some links \<Rightarrow>
          (if links = [] \<or> v = TUndef then Err TypeError
           else
             (case links_of v of
                Some vlinks \<Rightarrow>
                  bind (flattenWithBaseName env n v vlinks)
                    (\<lambda>flatRhs.
                  bind (flattenWithBaseName env n tok links)
                    (\<lambda>flatLhs.
                       if length flatRhs \<noteq> length flatLhs then Err StructuralShapeMismatch
                       else bind (match_leaves operator flatLhs flatRhs)
                              (\<lambda>(result, left).
                                 if left \<noteq> [] then Err StructuralShapeMismatch else Ok result)))
              | None \<Rightarrow>
                  bind (flattenWithBaseName env n tok links)
                    (\<lambda>flatLhs.
                       if 1 < length flatLhs \<and> \<not> is_null_value v
                       then Err CannotCompareStructWithValue
                       else Ok (compare_each operator v flatLhs)))))"

text \<open>\<open>assertNoStructInXpr(token, inInfixFilter)\<close>.\<close>

definition assertNoStructInXpr :: "token \<Rightarrow> bool \<Rightarrow> unit res" where
  "assertNoStructInXpr tok inInfixFilter =
     (case links_of tok of
        None \<Rightarrow> Ok ()
      | Some links \<Rightarrow>
          (case last_opt links of
             None \<Rightarrow> Err TypeError
           | Some l \<Rightarrow>
               (if \<not> inInfixFilter \<and> truthy (target (l_definition l)) then Err AssocInExpression
                else if isStructured (Some (l_definition l)) then Err StructInExpression
                else Ok ())))"


section \<open>Where-exists subqueries\<close>

type_synonym 'j tts_call = "token list \<Rightarrow> link option \<Rightarrow> 'j \<Rightarrow> (token list \<times> 'j) res"

definition set_where :: "select \<Rightarrow> token list \<Rightarrow> select" where
  "set_where q w =
     Select (s_from q) (s_columns q) (Some w) (s_having q) (s_groupBy q) (s_orderBy q)
       (s_excluding q) (s_localized q)"

text \<open>The object \<open>{ SELECT: q }\<close>; \<open>q\<close> is \<open>undefined\<close> when there is no subquery at all.\<close>

definition select_token :: "select option \<Rightarrow> token" where
  "select_token q = TObj (case q of None \<Rightarrow> BEmpty | Some sq \<Rightarrow> BSelect sq) no_meta"

text \<open>
  \<open>whereExistsSubqueries\<close>: the \<open>reduce\<close> pushes \<open>'and', 'exists', {SELECT: cur}\<close> onto the
  \<open>where\<close> of the previous subquery and goes on with \<open>cur\<close>, which the pushed object holds by
  reference: every subquery ends up nested in the one before it, and the first is returned.
\<close>

fun whereExistsSubqueries :: "select list \<Rightarrow> select option" where
  "whereExistsSubqueries [] = None"
| "whereExistsSubqueries [q] = Some q"
| "whereExistsSubqueries (q # r # rs) =
     (case s_where q of
        None \<Rightarrow> Some q
      | Some w \<Rightarrow>
          Some (set_where q
                  (w @ [TStr ''and'', TStr ''exists'',
                        select_token (whereExistsSubqueries (r # rs))])))"

text \<open>
  \<open>getWhereExistsSubquery(current, next, customWhere, inWhere)\<close>: \<open>SELECT 1 from <target of
  next> as <alias of next> where <on-condition> [and <filter>]\<close>. \<open>call\<close> is
  \<open>getTransformedTokenStream\<close>.
\<close>

definition step_source :: "env \<Rightarrow> csn \<Rightarrow> string" where
  "step_source env nextDefinition =
     js_str (localized env (case assocTarget env nextDefinition of
                              Some t \<Rightarrow> t | None \<Rightarrow> nextDefinition))"

definition exists_select :: "env \<Rightarrow> link \<Rightarrow> token list \<Rightarrow> select" where
  "exists_select env nxt cond =
     Select
       (TObj (BRef [SId (step_source env (l_definition nxt))])
          (no_meta\<lparr>m_as := Some (l_alias nxt)\<rparr>))
       (Some [CCol (val_of (VNum 1))]) (Some cond) None None None None False"

definition getWhereExistsSubquery ::
  "'j tts_call \<Rightarrow> 'j hooks \<Rightarrow> env \<Rightarrow> nat \<Rightarrow> link \<Rightarrow> link \<Rightarrow> token list option \<Rightarrow> bool \<Rightarrow> 'j \<Rightarrow>
   (select \<times> 'j) res" where
  "getWhereExistsSubquery call hooks env n current nxt customWhere inWhere jt =
     (let fkSource = (if inWhere then l_definition nxt else l_definition current) in
      bind (if keys fkSource \<noteq> None then
              bind (getParentKeyForeignKeyPairs n (e_model env) fkSource current inWhere)
                (\<lambda>pkFkPairs. bind (mapM (pair_tokens (l_alias nxt)) pkFkPairs)
                   (\<lambda>cs. Ok (and_join cs)))
            else
              bind (onCondFor hooks n (e_model env) (if inWhere then nxt else current)
                      (if inWhere then current else nxt) inWhere)
                (\<lambda>u. case u of
                        None \<Rightarrow> Err TypeError
                      | Some unmanagedOn \<Rightarrow>
                          Ok (if customWhere \<noteq> None \<and> hasLogicalOr unmanagedOn
                              then [asXpr unmanagedOn] else unmanagedOn)))
        (\<lambda>cond.
           case customWhere of
             None \<Rightarrow> Ok (exists_select env nxt cond, jt)
           | Some cw \<Rightarrow>
               bind (call cw (Some nxt) jt)
                 (\<lambda>(filter, jt').
                    Ok (exists_select env nxt
                          (cond @ [TStr ''and''] @
                           (if hasLogicalOr filter then [asXpr filter] else filter)), jt'))))"

text \<open>\<open>rl.definition.isAssociation || rl.definition.kind === 'entity'\<close>, and \<open>findIndex\<close>.\<close>

definition assoc_or_entity :: "link \<Rightarrow> bool" where
  "assoc_or_entity rl =
     (d_isAssociation (attrs (l_definition rl)) \<or> kind (l_definition rl) = Some ''entity'')"

fun findIndex :: "('a \<Rightarrow> bool) \<Rightarrow> 'a list \<Rightarrow> nat option" where
  "findIndex P [] = None"
| "findIndex P (x # xs) = (if P x then Some 0 else map_option Suc (findIndex P xs))"

text \<open>
  \<open>2 + links.slice(j + 2).findIndex(...)\<close>, as the source has it (the index found in the
  slice is not shifted by \<open>j\<close>); \<open>findIndex\<close> returns -1 when nothing is found.
\<close>

definition nextAssocIndex :: "link list \<Rightarrow> nat \<Rightarrow> nat" where
  "nextAssocIndex links j =
     (case findIndex assoc_or_entity (drop (j + 2) links) of None \<Rightarrow> 1 | Some r \<Rightarrow> 2 + r)"

text \<open>The link \<open>current\<close> of the first step of \<open>exists <path>\<close> outside of a filter (lines
  848-856). An undefined \<open>target\<close> shows as the empty object.\<close>

definition source_link :: "env \<Rightarrow> link list \<Rightarrow> step \<Rightarrow> link res" where
  "source_link env links st =
     (case links of
        [] \<Rightarrow> Err TypeError
      | l0 # others \<Rightarrow>
          (case map_of (e_combined env) (idOnly st) of
             Some ((index, tableAlias) # others') \<Rightarrow>
               Ok \<lparr> l_definition = (case l_target l0 of None \<Rightarrow> empty_def | Some t \<Rightarrow> t),
                    l_target = l_target l0, l_alias = index,
                    l_onlyForeignKeyAccess = False, l_skipExpand = False \<rparr>
           | _ \<Rightarrow> Err TypeError))"

text \<open>
  The loop over the steps of the path after \<open>exists\<close> (lines 842-874). \<open>next.alias = as\<close>
  writes into the link, which the next round reads as \<open>current\<close>: the links are state.
  The loop sets its own counter (\<open>j = nextAssocIndex\<close>), possibly backwards, so it runs on
  fuel.
\<close>

primrec exists_steps ::
  "nat \<Rightarrow> 'j tts_call \<Rightarrow> 'j hooks \<Rightarrow> env \<Rightarrow> nat \<Rightarrow> link option \<Rightarrow> step list \<Rightarrow> bool \<Rightarrow> nat \<Rightarrow>
   link list \<Rightarrow> 'j \<Rightarrow> (select list \<times> 'j) res" where
  "exists_steps 0 = (\<lambda>call hooks env n base ref firstStepIsTableAlias j links jt. NoFuel)"
| "exists_steps (Suc k) = (\<lambda>call hooks env n base ref firstStepIsTableAlias j links jt.
     if length ref \<le> j then Ok ([], jt)
     else if j = 0 \<and> firstStepIsTableAlias then
       exists_steps k call hooks env n base ref firstStepIsTableAlias (Suc j) links jt
     else
       bind (if j = 0 then (case base of Some b \<Rightarrow> Ok (Some b)
                            | None \<Rightarrow> bind (source_link env links (ref ! j)) (\<lambda>c. Ok (Some c)))
             else Ok None)
         (\<lambda>first_current.
            case nth_opt links j of
              None \<Rightarrow> Err TypeError
            | Some next0 \<Rightarrow>
                (let jn = (if isStructured (Some (l_definition next0))
                           then nextAssocIndex links j else j)
                 in case nth_opt links jn of
                      None \<Rightarrow> Err TypeError
                    | Some next1 \<Rightarrow>
                        (let (as, jt1) = h_addNextAvailableTableAlias hooks jt
                                           (last_segment (l_alias next1));
                             links' = links[jn := next1\<lparr>l_alias := as\<rparr>]
                         in case (case first_current of Some c \<Rightarrow> Some c
                                  | None \<Rightarrow> nth_opt links' (j - 1)) of
                              None \<Rightarrow> Err TypeError
                            | Some current \<Rightarrow>
                                bind (getWhereExistsSubquery call hooks env n current
                                        (next1\<lparr>l_alias := as\<rparr>) (step_where (ref ! j)) True jt1)
                                  (\<lambda>(sub, jt2).
                                     bind (exists_steps k call hooks env n base ref
                                             firstStepIsTableAlias (Suc jn) links' jt2)
                                       (\<lambda>(subs, jt3). Ok (sub # subs, jt3)))))))"


section \<open>Token streams: \<open>getTransformedTokenStream\<close>\<close>

text \<open>
  The loop \<open>for (let i = 0; i < tokenStream.length; i++)\<close> reads the input by index (one
  token ahead, two behind) and writes the output \<open>transformedWhere\<close> by \<open>push\<close>, by index and
  by \<open>splice\<close> at positions computed from the input index \<open>i\<close>. One round is
  \<open>transform_token\<close>: it returns how many further input tokens the round has consumed (the
  source sets \<open>i\<close> forward), the output and the join tree.
\<close>

definition tok_at :: "token list \<Rightarrow> nat \<Rightarrow> token option" where
  "tok_at ts k = (case nth_opt ts k of Some TUndef \<Rightarrow> None | r \<Rightarrow> r)"

text \<open>\<open>transformedWhere[k] = x\<close>: beyond the end, the slots in between stay empty.\<close>

definition set_index :: "nat \<Rightarrow> token \<Rightarrow> token list \<Rightarrow> token list" where
  "set_index k x xs =
     (if k < length xs then xs[k := x] else xs @ replicate (k - length xs) TUndef @ [x])"

definition lower_chr :: "char \<Rightarrow> char" where
  "lower_chr c =
     (if of_char (CHR ''A'') \<le> (of_char c :: nat) \<and> (of_char c :: nat) \<le> of_char (CHR ''Z'')
      then char_of ((of_char c :: nat) + 32) else c)"

text \<open>\<open>typeof t === 'string' ? t.toLowerCase() : ''\<close>.\<close>

definition lower_string_of :: "token \<Rightarrow> string" where
  "lower_string_of t = (case t of TStr s \<Rightarrow> map lower_chr s | _ \<Rightarrow> [])"

text \<open>
  The empty list (lines 881-895). \<open>tokenStream.slice(i - 2, i)\<close> is empty for \<open>i < 2\<close> (a
  negative start counts from the end, which is not before \<open>i\<close>).
\<close>

definition empty_list_token :: "token list \<Rightarrow> nat \<Rightarrow> token list \<Rightarrow> token list" where
  "empty_list_token tokenStream i transformedWhere =
     (let firstPrecedingToken = (if 2 \<le> i then lower_string_of (tokenStream ! (i - 2)) else []);
          secondPrecedingToken = (if 2 \<le> i then lower_string_of (tokenStream ! (i - 1)) else [])
      in if firstPrecedingToken = ''not'' then
           splice (i - 2) 2 [TStr ''is'', TStr ''not'', TStr ''null''] transformedWhere
         else if secondPrecedingToken = ''in'' then
           splice (i - 1) 1 [TStr ''='', val_of VNull] transformedWhere
         else transformedWhere @ [TObj (BList []) no_meta])"

text \<open>
  The infix filter of a single value (lines 899-916): the keys of the target, without the
  backlink, flattened; more than one flat key is an error.
\<close>

definition key_elements :: "csn \<Rightarrow> csn option list res" where
  "key_elements d =
     (case keys d of
        None \<Rightarrow> Err TypeError
      | Some (KeyNames ks) \<Rightarrow> Ok (map (element_of d) ks)
      | Some (FKeys []) \<Rightarrow> Ok []
      | Some (FKeys (fk # fks)) \<Rightarrow> Err TypeError)"

definition not_backlink :: "model \<Rightarrow> csn \<Rightarrow> csn option \<Rightarrow> bool res" where
  "not_backlink m assoc k = bind (first_backlink m assoc) (\<lambda>b. Ok (k \<noteq> b))"

fun filterM :: "('a \<Rightarrow> bool res) \<Rightarrow> 'a list \<Rightarrow> 'a list res" where
  "filterM P [] = Ok []"
| "filterM P (x # xs) =
     bind (P x) (\<lambda>b. bind (filterM P xs) (\<lambda>ys. Ok (if b then x # ys else ys)))"

definition flat_key_columns :: "env \<Rightarrow> nat \<Rightarrow> link \<Rightarrow> csn option \<Rightarrow> token list res" where
  "flat_key_columns env n baseLink v =
     bind (getFlatColumnsFor n (e_model env) (arg_of v) None None (Some (SId (l_alias baseLink))))
       (\<lambda>r. case r of None \<Rightarrow> Err TypeError | Some cols \<Rightarrow> Ok cols)"

definition infix_filter_value :: "env \<Rightarrow> nat \<Rightarrow> link \<Rightarrow> token \<Rightarrow> token list res" where
  "infix_filter_value env n baseLink tok =
     (let def = (case target_def (e_model env) (l_definition baseLink) of
                   Some t \<Rightarrow> t | None \<Rightarrow> l_definition baseLink)
      in bind (key_elements def)
           (\<lambda>ks. bind (filterM (not_backlink (e_model env) (l_definition baseLink)) ks)
              (\<lambda>ks'. bind (mapM (flat_key_columns env n baseLink) ks')
                 (\<lambda>css. let flatKeys = concat css in
                    if 1 < length flatKeys then Err FilterNeedsSingleForeignKey
                    else Ok (and_join (map (\<lambda>c. [c, TStr ''='', tok]) flatKeys))))))"

definition def_of_token :: "token \<Rightarrow> csn option" where
  "def_of_token t =
     (case links_of t of
        None \<Rightarrow> None
      | Some links \<Rightarrow> map_option l_definition (last_opt links))"

text \<open>\<open>isAssocOrStruct(rhs.$refLinks?.[rhs.$refLinks.length - 1].definition) || rhs.val !==
  undefined || rhs === 'null'\<close>.\<close>

definition is_val :: "token \<Rightarrow> bool" where
  "is_val t = (case t of TObj (BVal v) mt \<Rightarrow> True | _ \<Rightarrow> False)"

definition rhs_comparable :: "token \<Rightarrow> bool res" where
  "rhs_comparable rhs =
     (case rhs of
        TUndef \<Rightarrow> Err TypeError
      | TStr s \<Rightarrow> Ok (s = ''null'')
      | TObj b mt \<Rightarrow>
          (case m_refLinks mt of
             None \<Rightarrow> Ok (is_val rhs)
           | Some links \<Rightarrow>
               (case last_opt links of
                  None \<Rightarrow> Err TypeError
                | Some l \<Rightarrow> Ok (isAssocOrStruct (Some (l_definition l)) \<or> is_val rhs))))"

fun truthy_tok :: "token option \<Rightarrow> bool" where
  "truthy_tok None = False"
| "truthy_tok (Some TUndef) = False"
| "truthy_tok (Some (TStr s)) = (s \<noteq> [])"
| "truthy_tok (Some (TObj b mt)) = True"

text \<open>The arguments of a function (lines 966-971): an argument with a truthy \<open>val\<close> is left
  alone, every other one is rewritten as a stream of its own.\<close>

fun transform_args :: "'j tts_call \<Rightarrow> link option \<Rightarrow> token list \<Rightarrow> 'j \<Rightarrow> (token list \<times> 'j) res" where
  "transform_args call base [] jt = Ok ([], jt)"
| "transform_args call base (t # ts) jt =
     bind (case t of
             TObj (BVal v) mt \<Rightarrow>
               (if truthy_val v then Ok (t, jt)
                else bind (call [t] base jt)
                       (\<lambda>(r, jt'). Ok (case r of [] \<Rightarrow> TUndef | x # xs \<Rightarrow> x, jt')))
           | TUndef \<Rightarrow> Err TypeError
           | _ \<Rightarrow> bind (call [t] base jt)
                    (\<lambda>(r, jt'). Ok (case r of [] \<Rightarrow> TUndef | x # xs \<Rightarrow> x, jt')))
       (\<lambda>(t', jt').
          bind (transform_args call base ts jt') (\<lambda>(ts', jt''). Ok (t' # ts', jt'')))"

text \<open>The last branch for a token that is no structure comparison (lines 948-974).\<close>

definition generic_token ::
  "'j tts_call \<Rightarrow> 'j hooks \<Rightarrow> env \<Rightarrow> link option \<Rightarrow> token \<Rightarrow> 'j \<Rightarrow> (token \<times> 'j) res" where
  "generic_token call hooks env base tok jt =
     bind (assertNoStructInXpr tok (base \<noteq> None))
       (\<lambda>u. case tok of
          TObj (BRef ref) mt \<Rightarrow>
            bind (getQuerySourceName env tok base)
              (\<lambda>tableAlias.
                 if base = None \<and> m_isJoinRelevant mt then
                   (case def_of_token tok of
                      None \<Rightarrow> Err TypeError
                    | Some d \<Rightarrow>
                        bind (getFullName d)
                          (\<lambda>fullName.
                             Ok (TObj (BRef [tableAlias, SId fullName]) (strip_hidden mt), jt)))
                 else Ok (TObj (BRef [tableAlias, SId (js_str (m_flatName mt))])
                            (strip_hidden mt), jt))
        | TObj (BSelect q) mt \<Rightarrow> bind (h_transformSubquery hooks tok) (\<lambda>r. Ok (r, jt))
        | TObj (BXpr xs) mt \<Rightarrow>
            bind (call xs base jt) (\<lambda>(xs', jt'). Ok (TObj (BXpr xs') (strip_hidden mt), jt'))
        | TObj (BFunc f (Some args)) mt \<Rightarrow>
            bind (transform_args call base args jt)
              (\<lambda>(args', jt'). Ok (TObj (BFunc f (Some args')) (strip_hidden mt), jt'))
        | _ \<Rightarrow> Ok (copy tok, jt))"

text \<open>
  The comparison of a structure or managed association (lines 922-946). When the right
  operand is none of a structure, a value or \<open>null\<close>, the round pushes nothing and the
  loop goes on with the operator.
\<close>

definition string_of_token :: "token \<Rightarrow> string" where
  "string_of_token t = (case t of TStr s \<Rightarrow> s | _ \<Rightarrow> [])"

definition comparison_token ::
  "env \<Rightarrow> nat \<Rightarrow> token list \<Rightarrow> nat \<Rightarrow> token list \<Rightarrow> (nat \<times> token list) res" where
  "comparison_token env n tokenStream i transformedWhere =
     (let tok = tokenStream ! i;
          nextTok = (case tok_at tokenStream (i + 1) of None \<Rightarrow> TUndef | Some t \<Rightarrow> t);
          rhs0 = tok_at tokenStream (i + 2);
          two = is_second_op allOps rhs0;
          ops = (if two then [nextTok, (case rhs0 of None \<Rightarrow> TUndef | Some r \<Rightarrow> r)]
                 else [nextTok]);
          rhs = (if two then tok_at tokenStream (i + 3) else rhs0);
          indexRhs = (if two then i + 3 else i + 2)
      in case rhs of
           None \<Rightarrow> Err TypeError
         | Some r \<Rightarrow>
             bind (rhs_comparable r)
               (\<lambda>comparable.
                  if comparable then
                    (if is_first_op notSupportedOps (Some nextTok)
                     then Err (UnsupportedStructuralComparison (string_of_token nextTok))
                     else bind (expandComparison env n tok ops r)
                            (\<lambda>newTokens.
                               let needXpr =
                                     ((0 < i \<and> truthy_tok (nth_opt tokenStream (i - 1))) \<or>
                                      truthy_tok (nth_opt tokenStream (indexRhs + 1)))
                               in Ok (indexRhs - i,
                                      transformedWhere @
                                      (if needXpr then [asXpr newTokens] else newTokens))))
                  else Ok (0, transformedWhere)))"

definition is_comparison :: "token list \<Rightarrow> nat \<Rightarrow> bool" where
  "is_comparison tokenStream i =
     (is_first_op allOps (tok_at tokenStream (i + 1)) \<and>
      (case def_of_token (tokenStream ! i) of
         None \<Rightarrow> False
       | Some d \<Rightarrow> elements d \<noteq> None \<or> keys d \<noteq> None))"

text \<open>\<open>exists\<close> followed by a path (lines 834-879).\<close>

definition exists_token ::
  "'j tts_call \<Rightarrow> 'j hooks \<Rightarrow> env \<Rightarrow> nat \<Rightarrow> link option \<Rightarrow> token list \<Rightarrow> nat \<Rightarrow> token list \<Rightarrow> 'j \<Rightarrow>
   (nat \<times> token list \<times> 'j) res" where
  "exists_token call hooks env n base tokenStream i transformedWhere jt =
     (case tok_at tokenStream (i + 1) of
        None \<Rightarrow> Err TypeError
      | Some (TObj (BRef ref) mt) \<Rightarrow>
          (if ref \<noteq> [] \<and> js_in (step_str (hd ref)) [(''$self'', True), (''$projection'', True)]
           then Err (UnexpectedSelfAfterExists (step_str (hd ref)))
           else
             bind (exists_steps (Suc n) call hooks env n base ref
                     (1 < length ref \<and> js_in (step_str (hd ref)) (e_sources env)) 0
                     (case m_refLinks mt of None \<Rightarrow> [] | Some links \<Rightarrow> links) jt)
               (\<lambda>(whereExistsSubSelects, jt').
                  Ok (1,
                      set_index (i + 1) (select_token (whereExistsSubqueries whereExistsSubSelects))
                        (transformedWhere @ [TStr ''exists'']),
                      jt')))
      | Some other \<Rightarrow> Ok (0, transformedWhere @ [TStr ''exists''], jt))"

definition transform_token ::
  "'j tts_call \<Rightarrow> 'j hooks \<Rightarrow> env \<Rightarrow> nat \<Rightarrow> link option \<Rightarrow> token list \<Rightarrow> nat \<Rightarrow> token list \<Rightarrow> 'j \<Rightarrow>
   (nat \<times> token list \<times> 'j) res" where
  "transform_token call hooks env n base tokenStream i transformedWhere jt =
     (let tok = tokenStream ! i in
      case tok of
        TUndef \<Rightarrow> Err TypeError
      | _ \<Rightarrow>
        if tok = TStr ''exists'' then
          exists_token call hooks env n base tokenStream i transformedWhere jt
        else
          (case tok of
             TObj (BList l) mt \<Rightarrow>
               (if l = [] then Ok (0, empty_list_token tokenStream i transformedWhere, jt)
                else bind (call l None jt)
                       (\<lambda>(l', jt'). Ok (0, transformedWhere @ [TObj (BList l') no_meta], jt')))
           | _ \<Rightarrow>
               if length tokenStream = 1 \<and> (case tok of TObj (BVal v) mt \<Rightarrow> truthy_val v | _ \<Rightarrow> False)
                  \<and> base \<noteq> None then
                 bind (infix_filter_value env n (the base) tok)
                   (\<lambda>cmp. Ok (0, transformedWhere @ cmp, jt))
               else if (case tok of TObj (BRef ref) mt \<Rightarrow> m_param mt | _ \<Rightarrow> False) then
                 Ok (0, transformedWhere @ [spread tok], jt)
               else if is_pseudo_ref env tok then
                 Ok (0, transformedWhere @ [spread tok], jt)
               else if is_comparison tokenStream i then
                 bind (comparison_token env n tokenStream i transformedWhere)
                   (\<lambda>(skip, out). Ok (skip, out, jt))
               else
                 bind (generic_token call hooks env base tok jt)
                   (\<lambda>(result, jt'). Ok (0, transformedWhere @ [result], jt'))))"

function tokens_loop ::
  "(token list \<Rightarrow> nat \<Rightarrow> token list \<Rightarrow> 'j \<Rightarrow> (nat \<times> token list \<times> 'j) res) \<Rightarrow>
   token list \<Rightarrow> nat \<Rightarrow> token list \<Rightarrow> 'j \<Rightarrow> (token list \<times> 'j) res" where
  "tokens_loop round tokenStream i transformedWhere jt =
     (if length tokenStream \<le> i then Ok (transformedWhere, jt)
      else bind (round tokenStream i transformedWhere jt)
             (\<lambda>(skip, out, jt'). tokens_loop round tokenStream (i + skip + 1) out jt'))"
  by pat_completeness auto
termination
  by (relation "measure (\<lambda>(round, tokenStream, i, transformedWhere, jt). length tokenStream - i)")
     auto

text \<open>
  \<open>getTransformedTokenStream(tokenStream, $baseLink)\<close>. The fuel bounds the nesting of
  token streams (lists, expressions, function arguments, filters) and the recursions
  through the model.
\<close>

primrec getTransformedTokenStream ::
  "nat \<Rightarrow> 'j hooks \<Rightarrow> env \<Rightarrow> token list \<Rightarrow> link option \<Rightarrow> 'j \<Rightarrow> (token list \<times> 'j) res" where
  "getTransformedTokenStream 0 = (\<lambda>hooks env tokenStream base jt. NoFuel)"
| "getTransformedTokenStream (Suc n) = (\<lambda>hooks env tokenStream base jt.
     tokens_loop (transform_token (getTransformedTokenStream n hooks env) hooks env n base)
       tokenStream 0 [] jt)"


section \<open>The from clause: \<open>getTransformedFrom\<close>\<close>

fun foldM :: "('s \<Rightarrow> 'a \<Rightarrow> 's res) \<Rightarrow> 's \<Rightarrow> 'a list \<Rightarrow> 's res" where
  "foldM f st [] = Ok st"
| "foldM f st (x # xs) = bind (f st x) (\<lambda>st'. foldM f st' xs)"








section \<open>Inference: \<open>infer\<close>\<close>

text \<open>
  \<open>infer(originalQuery, model)\<close> of \<open>db-service/lib/infer/index.js\<close>: it resolves the
  references of a query against the model and attaches \<open>$refLinks\<close>, \<open>flatName\<close>,
  \<open>isJoinRelevant\<close> and \<open>element\<close> to them; it returns the query with its \<open>sources\<close>, its
  \<open>$combinedElements\<close>, its \<open>elements\<close> and its join tree.

  \<open>String(val)\<close>, the property key that a literal is used as, and the assignment
  \<open>obj[k] = v\<close>.
\<close>

function dec :: "int \<Rightarrow> string" where
  "dec n = (if n < 10 then [char_of (48 + n)] else dec (n div 10) @ [char_of (48 + n mod 10)])"
  by pat_completeness auto
termination
  by (relation "measure nat") auto

text \<open>
  A number literal is an integer here (a literal with a fraction is outside the model), and
  it stands for the double nearest to it: \<open>round_double\<close> (ties to even). \<open>String\<close> prints
  the shortest digits that give the double back, which \<open>shortest\<close> looks for among the numbers
  of \<open>k\<close> digits below and above; from \<open>1e21\<close> on it prints them in exponent notation.
\<close>

function bits :: "int \<Rightarrow> nat" where
  "bits n = (if n \<le> 0 then 0 else Suc (bits (n div 2)))"
  by pat_completeness auto
termination
  by (relation "measure nat") auto

fun scale :: "int \<Rightarrow> nat \<Rightarrow> int \<Rightarrow> int" where
  "scale b 0 x = x"
| "scale b (Suc k) x = scale b k (b * x)"

definition round_double :: "int \<Rightarrow> int" where
  "round_double n =
     (if bits n \<le> 53 then n
      else (let ulp = scale 2 (bits n - 53) 1; q = n div ulp; r = n mod ulp
            in (if ulp < 2 * r \<or> (2 * r = ulp \<and> odd q) then q + 1 else q) * ulp))"

definition digits_of :: "int \<Rightarrow> nat \<Rightarrow> int option" where
  "digits_of n k =
     (let unit = scale 10 (length (dec n) - k) 1;
          below = (n div unit) * unit;
          above = below + unit;
          okb = (round_double below = n);
          oka = (round_double above = n)
      in if okb \<and> (\<not> oka \<or> n - below \<le> above - n) then Some below
         else if oka then Some above else None)"

fun shortest :: "int \<Rightarrow> nat list \<Rightarrow> int" where
  "shortest n [] = n"
| "shortest n (k # ks) = (case digits_of n k of Some c \<Rightarrow> c | None \<Rightarrow> shortest n ks)"

definition strip_zeros :: "string \<Rightarrow> string" where
  "strip_zeros ds = rev (dropWhile (\<lambda>c. c = CHR ''0'') (rev ds))"

definition exponential :: "string \<Rightarrow> string" where
  "exponential ds =
     (let m = strip_zeros ds
      in take 1 m @ (if 1 < length m then ''.'' @ drop 1 m else []) @ ''e+'' @
         dec (int (length ds) - 1))"

definition print_digits :: "int \<Rightarrow> string \<Rightarrow> string" where
  "print_digits d ds = (if d < 1000000000000000000000 then ds else exponential ds)"

definition print_double :: "int \<Rightarrow> string" where
  "print_double d = print_digits d (dec (shortest d [1 ..< 18]))"

definition string_of_nat :: "int \<Rightarrow> string" where
  "string_of_nat n = print_double (round_double n)"

fun string_of_val :: "val \<Rightarrow> string" where
  "string_of_val VNull = ''null''"
| "string_of_val (VBool b) = (if b then ''true'' else ''false'')"
| "string_of_val (VNum n) = (if n < 0 then ''-'' @ string_of_nat (- n) else string_of_nat n)"
| "string_of_val (VStr s) = s"

text \<open>
  The own properties of an object keep the order of JavaScript: the keys that are array
  indices (\<open>0\<close> to \<open>4294967294\<close>, in canonical digits) come first in ascending order, the other
  keys in the order of their creation. \<open>assign\<close> is \<open>obj[k] = v\<close> for a key other than
  \<open>__proto__\<close>.
\<close>

definition index_val :: "string \<Rightarrow> int" where
  "index_val k = foldl (\<lambda>a c. 10 * a + (of_char c - 48)) 0 k"

definition is_index :: "string \<Rightarrow> bool" where
  "is_index k =
     (k \<noteq> [] \<and> list_all (\<lambda>c. c \<in> set ''0123456789'') k \<and> (k = ''0'' \<or> hd k \<noteq> CHR ''0'') \<and>
      length k \<le> 10 \<and> index_val k < 4294967295)"

fun insert_key :: "string \<Rightarrow> 'v \<Rightarrow> (string \<times> 'v) list \<Rightarrow> (string \<times> 'v) list" where
  "insert_key k v [] = [(k, v)]"
| "insert_key k v ((k', v') # kvs) =
     (if is_index k \<and> (\<not> is_index k' \<or> index_val k < index_val k')
      then (k, v) # (k', v') # kvs
      else (k', v') # insert_key k v kvs)"

fun replace_key :: "string \<Rightarrow> 'v \<Rightarrow> (string \<times> 'v) list \<Rightarrow> (string \<times> 'v) list" where
  "replace_key k v [] = []"
| "replace_key k v ((k', v') # kvs) =
     (if k = k' then (k, v) # kvs else (k', v') # replace_key k v kvs)"

definition assign :: "string \<Rightarrow> 'v \<Rightarrow> (string \<times> 'v) list \<Rightarrow> (string \<times> 'v) list" where
  "assign k v obj = (if k \<in> fst ` set obj then replace_key k v obj else insert_key k v obj)"

text \<open>
  An assignment that no test for the key guards: \<open>obj['__proto__'] = v\<close> creates no
  property (it makes \<open>v\<close> the prototype; what the object then inherits from \<open>v\<close> is not
  followed here).
\<close>

definition js_set :: "string \<Rightarrow> 'v \<Rightarrow> (string \<times> 'v) list \<Rightarrow> (string \<times> 'v) list" where
  "js_set k v obj = (if k = ''__proto__'' then obj else assign k v obj)"

fun mapS :: "('a \<Rightarrow> 's \<Rightarrow> ('b \<times> 's) res) \<Rightarrow> 'a list \<Rightarrow> 's \<Rightarrow> ('b list \<times> 's) res" where
  "mapS f [] s = Ok ([], s)"
| "mapS f (x # xs) s =
     bind (f x s) (\<lambda>(y, s'). bind (mapS f xs s') (\<lambda>(ys, s''). Ok (y # ys, s'')))"

definition cdsType :: "string \<Rightarrow> csn" where
  "cdsType n = Def (no_attrs\<lparr>d_type := Some (''cds.'' @ n)\<rparr>) None"

definition cdsTypes :: "string \<Rightarrow> csn option" where
  "cdsTypes t =
     (let names = [''Timestamp'', ''DateTime'', ''Date'', ''Time'', ''String'', ''Decimal'',
                   ''Integer'', ''Boolean'']
      in if t \<in> set names then Some (cdsType t)
         else if t \<in> set (map (\<lambda>n. ''cds.'' @ n) names)
         then Some (Def (no_attrs\<lparr>d_type := Some t\<rparr>) None)
         else None)"

definition getCdsTypeForVal :: "val \<Rightarrow> csn" where
  "getCdsTypeForVal v =
     (case v of
        VStr s \<Rightarrow> cdsType ''String''
      | VBool b \<Rightarrow> cdsType ''Boolean''
      | VNum n \<Rightarrow> if \<bar>n\<bar> \<le> 9007199254740991 then cdsType ''Integer'' else cdsType ''Decimal''
      | VNull \<Rightarrow> empty_def)"

definition getDefinition :: "string \<Rightarrow> model \<Rightarrow> csn res" where
  "getDefinition n m = (case definitions m n of Some d \<Rightarrow> Ok d | None \<Rightarrow> Err (DefinitionNotFound n))"

definition getCopyWithAnnos :: "meta \<Rightarrow> csn \<Rightarrow> csn" where
  "getCopyWithAnnos from base =
     Def ((attrs base)\<lparr> d_annos := m_annos from @ d_annos (attrs base),
                        d_name := (if truthy (m_as from) \<and> name base \<noteq> m_as from
                                   then m_as from else name base) \<rparr>)
       (elements base)"

definition getElementForCast :: "meta \<Rightarrow> (csn \<times> meta) res" where
  "getElementForCast thing =
     (case m_cast thing of
        None \<Rightarrow> Ok (empty_def, thing)
      | Some t \<Rightarrow>
          (let c = (case cdsTypes t of Some d \<Rightarrow> d | None \<Rightarrow> Def (no_attrs\<lparr>d_type := Some t\<rparr>) None)
           in case m_refLinks thing of
                None \<Rightarrow> Ok (c, thing\<lparr>m_cast := d_type (attrs c)\<rparr>)
              | Some [] \<Rightarrow> Err TypeError
              | Some links \<Rightarrow>
                  if elements (l_definition (last links)) \<noteq> None then Err CastOnStructure
                  else Ok (c, thing\<lparr>m_cast := d_type (attrs c)\<rparr>)))"

definition elements_or_target :: "model \<Rightarrow> csn \<Rightarrow> (string \<times> csn) list option" where
  "elements_or_target m d =
     (case elements d of
        Some es \<Rightarrow> Some es
      | None \<Rightarrow> (case target_def m d of None \<Rightarrow> None | Some t \<Rightarrow> elements t))"

definition target_or_self :: "model \<Rightarrow> csn \<Rightarrow> csn" where
  "target_or_self m e = (case target_def m e of Some t \<Rightarrow> t | None \<Rightarrow> e)"

fun walk_tokens ::
  "(token list \<Rightarrow> bool \<times> 's \<Rightarrow> (token list \<times> bool \<times> 's) res) \<Rightarrow>
   (bool \<Rightarrow> token \<Rightarrow> 's \<Rightarrow> (token \<times> 's) res) \<Rightarrow>
   token list \<Rightarrow> bool \<times> 's \<Rightarrow> (token list \<times> bool \<times> 's) res" where
  "walk_tokens inner f [] st = Ok ([], st)"
| "walk_tokens inner f (t # ts) st =
     bind (case t of
             TUndef \<Rightarrow> Err TypeError
           | TObj (BXpr xs) mt \<Rightarrow>
               bind (inner xs st) (\<lambda>(xs', st'). Ok (TObj (BXpr xs') mt, st'))
           | _ \<Rightarrow>
               if t = TStr ''exists'' then Ok (t, True, snd st)
               else bind (f (fst st) t (snd st)) (\<lambda>(t', s'). Ok (t', False, s')))
       (\<lambda>(t', st'). bind (walk_tokens inner f ts st') (\<lambda>(ts', st''). Ok (t' # ts', st'')))"

primrec walkTokenStream ::
  "nat \<Rightarrow> (bool \<Rightarrow> token \<Rightarrow> 's \<Rightarrow> (token \<times> 's) res) \<Rightarrow>
   token list \<Rightarrow> bool \<times> 's \<Rightarrow> (token list \<times> bool \<times> 's) res" where
  "walkTokenStream 0 = (\<lambda>f ts st. NoFuel)"
| "walkTokenStream (Suc n) = (\<lambda>f ts st. walk_tokens (walkTokenStream n f) f ts st)"


text \<open>
  \<open>attachRefLinksToArg(arg, $baseLink = null, expandOrExists = false)\<close> (lines 152-215), one
  step of \<open>ref.forEach\<close>. The state is the links and the steps so far (the filters of a step
  get their links as well).
\<close>

type_synonym attach_call = "link option \<Rightarrow> bool \<Rightarrow> token \<Rightarrow> token res"

definition attach_first :: "model \<Rightarrow> link option \<Rightarrow> bool \<Rightarrow> step list \<Rightarrow> string \<Rightarrow> (csn \<times> csn) res"
where
  "attach_first m baseLink expandOrExists ref ident =
     (case baseLink of
        Some bl \<Rightarrow>
          (case (case elements_or_target m (l_definition bl) of
                   None \<Rightarrow> None | Some es \<Rightarrow> map_of es ident) of
             None \<Rightarrow> Err (UnknownName ident (js_str (name (l_definition bl))))
           | Some e \<Rightarrow>
               if truthy (target e) then
                 (let nextStep = (case nth_opt ref 1 of None \<Rightarrow> None | Some st \<Rightarrow> Some (idOnly st))
                  in if \<not> expandOrExists \<and> d_on (attrs e) \<noteq> None then Err UnmanagedInInfixFilter
                     else if \<not> expandOrExists \<and> truthy nextStep then
                       (case d_foreignKeys (attrs e) of
                          None \<Rightarrow> Err TypeError
                        | Some fks \<Rightarrow>
                            if the nextStep \<in> set fks then Ok (e, target_or_self m e)
                            else Err NonFkInInfixFilter)
                     else Ok (e, target_or_self m e))
               else Ok (e, target_or_self m e))
      | None \<Rightarrow> bind (getDefinition ident m) (\<lambda>d. Ok (d, d)))"

definition attach_next :: "model \<Rightarrow> link list \<Rightarrow> string \<Rightarrow> (csn \<times> csn) res" where
  "attach_next m links ident =
     (case last_opt links of
        None \<Rightarrow> Err TypeError
      | Some recent \<Rightarrow>
          (case l_target recent of
             None \<Rightarrow> Err TypeError
           | Some t \<Rightarrow>
               (case elements t of
                  None \<Rightarrow> Err TypeError
                | Some es \<Rightarrow>
                    (case map_of es ident of
                       None \<Rightarrow> Err (UnknownName ident (js_str (name (l_definition recent))))
                     | Some e \<Rightarrow> Ok (e, target_or_self m e)))))"

definition has_next :: "step list \<Rightarrow> nat \<Rightarrow> bool" where
  "has_next ref i = truthy_step (nth_opt ref (i + 1))"

definition step_alias :: "step list \<Rightarrow> meta \<Rightarrow> nat \<Rightarrow> string \<Rightarrow> string" where
  "step_alias ref mt i ident =
     (if \<not> has_next ref i \<and> truthy (m_as mt) then the (m_as mt) else last_segment ident)"

type_synonym 's walker =
  "(bool \<Rightarrow> token \<Rightarrow> 's \<Rightarrow> (token \<times> 's) res) \<Rightarrow> token list \<Rightarrow> bool \<times> 's \<Rightarrow>
   (token list \<times> bool \<times> 's) res"

definition attach_step ::
  "attach_call \<Rightarrow> unit walker \<Rightarrow> model \<Rightarrow> link option \<Rightarrow> bool \<Rightarrow> step list \<Rightarrow> meta \<Rightarrow>
   link list \<times> step list \<Rightarrow> nat \<Rightarrow> (link list \<times> step list) res" where
  "attach_step call walk m baseLink expandOrExists ref mt st i =
     (case st of (links, steps) \<Rightarrow>
      (case nth_opt ref i of
         None \<Rightarrow> Err TypeError
       | Some step \<Rightarrow>
           bind (if i = 0 then attach_first m baseLink expandOrExists ref (idOnly step)
                 else attach_next m links (idOnly step))
             (\<lambda>(d, t).
                let l = \<lparr> l_definition = d, l_target = Some t,
                          l_alias = step_alias ref mt i (idOnly step),
                          l_onlyForeignKeyAccess = False, l_skipExpand = False \<rparr>
                in case step_where step of
                     None \<Rightarrow> Ok (links @ [l], steps @ [step])
                   | Some w \<Rightarrow>
                       if kind d = Some ''entity'' \<or> target_def m d \<noteq> None then
                         bind (walk (\<lambda>existsPredicate t u.
                                       bind (call (Some l) existsPredicate t) (\<lambda>t'. Ok (t', ())))
                                 w (False, ()))
                           (\<lambda>(w', st'). Ok (links @ [l], steps @ [SObj (idOnly step) (Some w')]))
                       else Err FilterOnNonAssoc)))"

definition attach_ref ::
  "attach_call \<Rightarrow> unit walker \<Rightarrow> model \<Rightarrow> link option \<Rightarrow> bool \<Rightarrow> step list \<Rightarrow> meta \<Rightarrow>
   token res" where
  "attach_ref call walk m baseLink expandOrExists ref mt =
     bind (foldM (attach_step call walk m baseLink expandOrExists ref mt) ([], [])
             [0 ..< length ref])
       (\<lambda>(links, steps).
          Ok (TObj (BRef steps)
                (mt\<lparr> m_refLinks := Some links,
                     m_flatName := (if baseLink \<noteq> None \<and> ref \<noteq> []
                                    then Some (join ''_'' (map step_str ref))
                                    else m_flatName mt) \<rparr>)))"

primrec attachRefLinksToArg :: "nat \<Rightarrow> model \<Rightarrow> link option \<Rightarrow> bool \<Rightarrow> token \<Rightarrow> token res" where
  "attachRefLinksToArg 0 = (\<lambda>m baseLink expandOrExists arg. NoFuel)"
| "attachRefLinksToArg (Suc n) = (\<lambda>m baseLink expandOrExists arg.
     case arg of
       TUndef \<Rightarrow> Err TypeError
     | TStr s \<Rightarrow> Ok arg
     | TObj b mt \<Rightarrow>
         (case b of
            BXpr xs \<Rightarrow>
              bind (mapM (attachRefLinksToArg n m baseLink expandOrExists) xs)
                (\<lambda>xs'. Ok (TObj (BXpr xs') mt))
          | BRef ref \<Rightarrow>
              attach_ref (attachRefLinksToArg n m) (walkTokenStream n) m baseLink expandOrExists
                ref mt
          | _ \<Rightarrow> Ok arg))"

text \<open>
  \<open>inferTarget(from, querySources)\<close> (lines 92-127). A subquery in the from clause is
  inferred by \<open>infer\<close> itself (the parameter \<open>inferSub\<close>, which returns the subquery with its
  links and its elements); as a source it is the definition that has these elements.
\<close>

definition next_target :: "model \<Rightarrow> csn \<Rightarrow> step \<Rightarrow> csn res" where
  "next_target m d r =
     (case elements d of
        None \<Rightarrow> Err TypeError
      | Some es \<Rightarrow>
          (case (case map_of es (idOnly r) of
                   None \<Rightarrow> None
                 | Some e \<Rightarrow> if elements e \<noteq> None then Some e else target_def m e) of
             None \<Rightarrow> Err (NoAssociation (idOnly r))
           | Some nxt \<Rightarrow> Ok nxt))"

definition inferTarget_ref ::
  "(token \<Rightarrow> token res) \<Rightarrow> model \<Rightarrow> step list \<Rightarrow> meta \<Rightarrow> (string \<times> csn) list \<Rightarrow>
   (token \<times> (string \<times> csn) list) res" where
  "inferTarget_ref attach m ref mt querySources =
     (case ref of
        [] \<Rightarrow> Err TypeError
      | st # sts \<Rightarrow>
          bind (getDefinition (idOnly st) m) (\<lambda>first_def.
          bind (foldM (next_target m) first_def sts) (\<lambda>tgt.
          if kind tgt \<noteq> Some ''entity'' \<and> \<not> d_isAssociation (attrs tgt)
          then Err QuerySourceNotEntityOrAssoc
          else
          bind (attach (TObj (BRef ref) mt)) (\<lambda>from'.
          bind (if truthy (m_as mt) then Ok (the (m_as mt))
                else if length ref = 1
                then (if last_segment (idOnly st) = [] then Err TypeError
                      else Ok (last_segment (idOnly st)))
                else Ok (idOnly (last ref))) (\<lambda>alias.
          if js_in alias querySources then Err (DuplicateAlias alias)
          else Ok (from', assign alias tgt querySources))))))"

definition subquery_source :: "(string \<times> csn) list option \<Rightarrow> csn" where
  "subquery_source es = Def (no_attrs\<lparr>d_SELECT := True\<rparr>) es"

primrec inferTarget ::
  "nat \<Rightarrow> (select \<Rightarrow> (select \<times> (string \<times> csn) list option) res) \<Rightarrow> model \<Rightarrow> token \<Rightarrow>
   (string \<times> csn) list \<Rightarrow> (token \<times> (string \<times> csn) list) res" where
  "inferTarget 0 = (\<lambda>inferSub m from querySources. NoFuel)"
| "inferTarget (Suc n) = (\<lambda>inferSub m from querySources.
     case from of
       TUndef \<Rightarrow> Err TypeError
     | TStr s \<Rightarrow>
         bind (getDefinition s m) (\<lambda>d. Ok (from, js_set (last_segment s) d querySources))
     | TObj b mt \<Rightarrow>
         (case b of
            BRef ref \<Rightarrow> inferTarget_ref (attachRefLinksToArg (Suc n) m None False) m ref mt
                          querySources
          | BJoin k args cond \<Rightarrow>
              bind (mapS (inferTarget n inferSub m) args querySources)
                (\<lambda>(args', qs). Ok (TObj (BJoin k args' cond) mt, qs))
          | BSelect q \<Rightarrow>
              bind (inferSub q)
                (\<lambda>(q', es). Ok (TObj (BSelect q') mt,
                                  js_set (if truthy (m_as mt) then the (m_as mt) else [])
                                    (subquery_source es) querySources))
          | _ \<Rightarrow> Ok (from, querySources)))"


text \<open>
  The collaborators of the inference that are parameters: the join tree (\<open>new
  JoinTree(sources)\<close> and \<open>joinTree.mergeColumn(column)\<close>, from \<open>./join-tree\<close>) and the nested
  projections \<open>resolveExpand\<close> and \<open>resolveInline\<close>; they return the elements of the
  projection, the nested columns with their links and the join tree.
\<close>

record 'j infer_hooks =
  i_JoinTree :: "(string \<times> csn) list \<Rightarrow> 'j"
  i_mergeColumn :: "'j \<Rightarrow> token \<Rightarrow> 'j"
  i_resolveExpand :: "'j \<Rightarrow> token \<Rightarrow> column list \<Rightarrow> (csn \<times> column list \<times> 'j) res"
  i_resolveInline ::
    "'j \<Rightarrow> token \<Rightarrow> column list \<Rightarrow> ((string \<times> csn) list \<times> column list \<times> 'j) res"

text \<open>The nested projection of a column: \<open>column.expand\<close> or \<open>column.inline\<close>.\<close>

datatype nested_projection = NoNested | Expand "column list" | Inline "column list"

fun is_expand :: "nested_projection \<Rightarrow> bool" where
  "is_expand (Expand cols) = True"
| "is_expand other = False"

fun is_inline :: "nested_projection \<Rightarrow> bool" where
  "is_inline (Inline cols) = True"
| "is_inline other = False"

text \<open>
  \<open>inferQueryElement\<close> (lines 374-549): the link of the first step, in the order pseudo
  path, base link, table alias, \<open>$self\<close>, alias of an outer query, combined elements. The
  result is the definition, the target, \<open>pseudoPath\<close> and the name segments. An inherited
  property of \<open>$combinedElements\<close> is a function: \<open>.length > 1\<close> holds for
  \<open>__defineGetter__\<close> and \<open>__defineSetter__\<close>, and \<open>[0].tableAlias\<close> is a TypeError for the
  others.
\<close>

definition element_in :: "(string \<times> csn) list option \<Rightarrow> string \<Rightarrow> csn option" where
  "element_in es ident = (case es of None \<Rightarrow> None | Some l \<Rightarrow> map_of l ident)"

text \<open>
  \<open>obj[k]\<close> on a plain object whose values are definitions: an inherited property is a
  function (or \<open>Object.prototype\<close>, for \<open>__proto__\<close>), which has a \<open>name\<close> and none of the
  other properties of a definition.
\<close>

definition inherited_property :: "string \<Rightarrow> csn" where
  "inherited_property k =
     Def (no_attrs\<lparr> d_name := (if k = ''__proto__'' then None
                                  else if k = ''constructor'' then Some ''Object''
                                  else Some k) \<rparr>) None"

definition js_get :: "(string \<times> csn) list \<Rightarrow> string \<Rightarrow> csn option" where
  "js_get obj k =
     (case map_of obj k of
        Some v \<Rightarrow> Some v
      | None \<Rightarrow> if k \<in> set object_prototype then Some (inherited_property k) else None)"

text \<open>The names in the message of \<open>stepNotFoundInCombinedElements\<close>: \<open>def.name || def.as\<close>
  of every source (the \<open>as\<close> of a subquery is its key).\<close>

definition source_names :: "(string \<times> csn) list \<Rightarrow> string" where
  "source_names sources =
     join '', ''
       (map (\<lambda>(k, d). ''\"'' @ (if truthy (name d) then the (name d)
                               else if d_SELECT (attrs d) \<and> k \<noteq> [] then k
                               else ''undefined'') @ ''\"'')
          sources)"

definition first_link ::
  "env \<Rightarrow> (string \<times> csn) list list \<Rightarrow> (string \<times> csn) list \<Rightarrow> link option \<Rightarrow> bool \<Rightarrow> bool \<Rightarrow>
   string \<Rightarrow> (csn \<times> csn option \<times> bool \<times> string list) res" where
  "first_link env outerQueries queryElements baseLink firstStepIsTableAlias firstStepIsSelf ident =
     (case element_of (e_pseudos env) ident of
        Some p \<Rightarrow> Ok (p, Some (e_pseudos env), True, [ident])
      | None \<Rightarrow>
          (case baseLink of
             Some bl \<Rightarrow>
               (case element_in (elements_or_target (e_model env) (l_definition bl)) ident of
                  Some e \<Rightarrow> Ok (e, l_target bl, False, [ident])
                | None \<Rightarrow> Err (UnknownName ident (js_str (name (l_definition bl)))))
           | None \<Rightarrow>
               if firstStepIsTableAlias then
                 (case js_get (e_sources env) ident of
                    Some d \<Rightarrow> Ok (d, Some d, False, [])
                  | None \<Rightarrow> Err TypeError)
               else if firstStepIsSelf then
                 Ok (Def no_attrs (Some queryElements), Some (Def no_attrs (Some queryElements)),
                     False, [])
               else
                 (case find (js_in ident) outerQueries of
                    Some outer \<Rightarrow>
                      (case js_get outer ident of
                         Some d \<Rightarrow> Ok (d, Some d, False, [])
                       | None \<Rightarrow> Err TypeError)
                  | None \<Rightarrow>
                      (case map_of (e_combined env) ident of
                         None \<Rightarrow>
                           if ident \<in> set [''__defineGetter__'', ''__defineSetter__'']
                           then Err (AmbiguousName ident)
                           else if ident \<in> set object_prototype then Err TypeError
                           else Err (UnknownName ident (source_names (e_sources env)))
                       | Some tas \<Rightarrow>
                           if 1 < length tas then Err (AmbiguousName ident)
                           else
                             (case tas of
                                [] \<Rightarrow> Err TypeError
                              | (index, tableAlias) # others \<Rightarrow>
                                  (case element_in (elements tableAlias) ident of
                                     None \<Rightarrow> Err TypeError
                                   | Some d \<Rightarrow> Ok (d, Some tableAlias, False, [ident])))))))"

text \<open>
  The link of a later step: an element of the step before it; an unknown step of a path
  that starts with \<open>$user\<close> gets the empty definition; \<open>$dummy\<close> is known everywhere. The
  last component tells that the column became join relevant. The error names
  \<open>pseudoPath ? column.ref[i - 1] : getFullPathForLinkedArg(column)\<close> (lines 818-829).
\<close>

definition parent_of :: "csn option \<Rightarrow> parent" where
  "parent_of t = (case t of None \<Rightarrow> NoParent | Some d \<Rightarrow> Parent (kind d) (name d) (d_parent (attrs d)))"

fun full_path :: "link list \<Rightarrow> nat \<Rightarrow> bool \<Rightarrow> string option \<Rightarrow> string option" where
  "full_path [] i firstStepIsEntity r = r"
| "full_path (cur # ls) i firstStepIsEntity r =
     (if kind (l_definition cur) = Some ''entity''
      then full_path ls (i + 1) True (Some (js_str (name (l_definition cur))))
      else full_path ls (i + 1) firstStepIsEntity
             (if r \<noteq> Some []
              then Some (js_str r @ (if i = 1 \<and> firstStepIsEntity then '':'' else ''.'') @
                         js_str (name (l_definition cur)))
              else name (l_definition cur)))"

definition getFullPathForLinkedArg :: "link list \<Rightarrow> string" where
  "getFullPathForLinkedArg links = js_str (full_path links 0 False (Some []))"

definition not_found_in :: "bool \<Rightarrow> step list \<Rightarrow> nat \<Rightarrow> link list \<Rightarrow> string" where
  "not_found_in pseudoPath ref i links =
     (if pseudoPath then (case nth_opt ref (i - 1) of None \<Rightarrow> ''undefined'' | Some st \<Rightarrow> step_str st)
      else getFullPathForLinkedArg links)"

definition next_link ::
  "env \<Rightarrow> bool \<Rightarrow> step list \<Rightarrow> bool \<Rightarrow> link \<Rightarrow> string \<Rightarrow> string \<Rightarrow>
   (csn \<times> csn option \<times> bool) res" where
  "next_link env firstStepIsSelf ref pseudoPath prev notFoundIn ident =
     (case element_in (elements_or_target (e_model env) (l_definition prev)) ident of
        Some e \<Rightarrow> Ok (e, l_target prev, False)
      | None \<Rightarrow>
          if firstStepIsSelf then Err (NotInColumnList ident)
          else if nth_opt ref 0 = Some (SId ''$user'') \<and> pseudoPath
          then Ok (empty_def, l_target prev, False)
          else if ident = ''$dummy''
          then Ok (Def (no_attrs\<lparr> d_name := Some ''$dummy'',
                                    d_parent := parent_of (l_target prev) \<rparr>) None, None, True)
          else Err (UnknownName ident notFoundIn))"

text \<open>
  \<open>foreignKeyAlias\<close>: the first foreign key of the definition before the step whose \<open>ref\<close>
  is what the path goes on with; the rest of its \<open>ref\<close> goes onto
  \<open>skipAliasedFkSegmentsOfNameStack\<close>. Then the name segment of the step.
\<close>

definition key_matches :: "step list \<Rightarrow> fkey \<Rightarrow> bool" where
  "key_matches steps k = (take (length (fk_ref k)) steps = map SId (fk_ref k))"

definition foreignKeyAlias :: "step list \<Rightarrow> nat \<Rightarrow> csn \<Rightarrow> string list \<Rightarrow> string option \<times> string list"
where
  "foreignKeyAlias ref i d skip =
     (case keys d of
        Some (FKeys ks) \<Rightarrow>
          (case find (key_matches (drop i ref)) ks of
             Some k \<Rightarrow> (fk_as k, skip @ tl (fk_ref k))
           | None \<Rightarrow> (None, skip))
      | _ \<Rightarrow> (None, skip))"

definition name_segment ::
  "string list \<Rightarrow> string option \<times> string list \<Rightarrow> string \<Rightarrow> string list \<times> string list" where
  "name_segment nameSegments fk ident =
     (case fk of (alias, skip) \<Rightarrow>
        if truthy alias then (nameSegments @ [the alias], skip)
        else (case skip of
                s # rest \<Rightarrow> if s = ident then (nameSegments, rest) else (nameSegments @ [ident], skip)
              | [] \<Rightarrow> (nameSegments @ [ident], skip)))"

text \<open>The tokens of the filter of a step (lines 476-485).\<close>

fun filter_tokens ::
  "(bool \<Rightarrow> token \<Rightarrow> 'j \<Rightarrow> (token \<times> 'j) res) \<Rightarrow> token list \<Rightarrow> bool \<Rightarrow> 'j \<Rightarrow> (token list \<times> 'j) res"
where
  "filter_tokens call [] skipJoinsForFilter jt = Ok ([], jt)"
| "filter_tokens call (t # ts) skipJoinsForFilter jt =
     bind (case t of
             TUndef \<Rightarrow> Err TypeError
           | TStr s \<Rightarrow> Ok (t, skipJoinsForFilter \<or> s = ''exists'', jt)
           | TObj (BRef ref) mt \<Rightarrow>
               bind (call skipJoinsForFilter t jt) (\<lambda>(t', jt'). Ok (t', skipJoinsForFilter, jt'))
           | TObj (BXpr xs) mt \<Rightarrow>
               bind (call skipJoinsForFilter t jt) (\<lambda>(t', jt'). Ok (t', skipJoinsForFilter, jt'))
           | TObj (BFunc f (Some args)) mt \<Rightarrow>
               if f = [] then Ok (t, skipJoinsForFilter, jt)
               else bind (mapS (call skipJoinsForFilter) args jt)
                      (\<lambda>(args', jt'). Ok (TObj (BFunc f (Some args')) mt, skipJoinsForFilter, jt'))
           | _ \<Rightarrow> Ok (t, skipJoinsForFilter, jt))
       (\<lambda>(t', skip', jt').
          bind (filter_tokens call ts skip' jt') (\<lambda>(ts', jt''). Ok (t' # ts', jt'')))"

text \<open>\<open>isColumnJoinRelevant(column)\<close> (lines 649-683), from the step \<open>i\<close> on.\<close>

definition assoc_key_access :: "csn option \<Rightarrow> step list \<Rightarrow> bool res" where
  "assoc_key_access assoc steps =
     (case assoc of
        None \<Rightarrow> Ok False
      | Some a \<Rightarrow>
          (case keys a of
             None \<Rightarrow> Ok False
           | Some (FKeys ks) \<Rightarrow> Ok (list_ex (key_matches steps) ks)
           | Some (KeyNames ns) \<Rightarrow> Err TypeError))"

fun join_relevant_from :: "bool \<Rightarrow> step list \<Rightarrow> link list \<Rightarrow> bool \<Rightarrow> csn option \<Rightarrow> bool res" where
  "join_relevant_from expand [] ls fkAccess assoc = Ok (assoc \<noteq> None \<and> \<not> fkAccess)"
| "join_relevant_from expand (st # sts) [] fkAccess assoc = Err TypeError"
| "join_relevant_from expand (st # sts) (l # ls) fkAccess assoc =
     (let d = l_definition l;
          more = truthy_step (case sts of [] \<Rightarrow> None | s # rest \<Rightarrow> Some s)
      in if d_on (attrs d) \<noteq> None \<and> d_isAssociation (attrs d)
         then Ok (if more then True else expand \<and> assoc \<noteq> None)
         else bind (assoc_key_access assoc (st # sts))
                (\<lambda>fk. if fk then Ok False
                       else if truthy (target d) \<and> keys d \<noteq> None then
                         (if step_where st \<noteq> None then Ok (\<not> (expand \<and> \<not> more))
                          else join_relevant_from expand sts ls (\<not> (more \<or> assoc \<noteq> None))
                                 (Some d))
                       else join_relevant_from expand sts ls fkAccess assoc))"

definition isColumnJoinRelevant :: "bool \<Rightarrow> step list \<Rightarrow> link list \<Rightarrow> bool res" where
  "isColumnJoinRelevant expand ref links = join_relevant_from expand ref links False None"


text \<open>
  One round of \<open>column.ref.forEach\<close>. The state: the links and the steps so far,
  \<open>nameSegments\<close>, \<open>skipAliasedFkSegmentsOfNameStack\<close>, \<open>pseudoPath\<close>, \<open>isPersisted\<close>, whether
  the column became join relevant, and the join tree.
\<close>

record 'j rstate =
  rs_links :: "link list"
  rs_steps :: "step list"
  rs_names :: "string list"
  rs_skip :: "string list"
  rs_pseudo :: bool
  rs_persisted :: bool
  rs_relevant :: bool
  rs_jt :: 'j

type_synonym 'j iqe_call = "link option \<Rightarrow> bool \<Rightarrow> bool \<Rightarrow> token \<Rightarrow> 'j \<Rightarrow> (token \<times> 'j) res"

definition target_skipped :: "model \<Rightarrow> csn \<Rightarrow> bool" where
  "target_skipped m d =
     (case target_def m d of Some t \<Rightarrow> d_persistence_skip (attrs t) | None \<Rightarrow> False)"

definition resolve_step ::
  "'j iqe_call \<Rightarrow> env \<Rightarrow> (string \<times> csn) list list \<Rightarrow> (string \<times> csn) list \<Rightarrow> link option \<Rightarrow>
   bool \<Rightarrow> bool \<Rightarrow> bool \<Rightarrow> bool \<Rightarrow> step list \<Rightarrow> meta \<Rightarrow> 'j rstate \<Rightarrow> nat \<Rightarrow> 'j rstate res" where
  "resolve_step call env outerQueries queryElements baseLink inExists firstStepIsTableAlias
     firstStepIsSelf expand ref mt st i =
     (case nth_opt ref i of
        None \<Rightarrow> Err TypeError
      | Some step \<Rightarrow>
          bind (if i = 0 then
                  bind (first_link env outerQueries queryElements baseLink firstStepIsTableAlias
                          firstStepIsSelf (idOnly step))
                    (\<lambda>(d, t, pseudoPath, names).
                       Ok (d, t, st\<lparr> rs_pseudo := pseudoPath, rs_names := names \<rparr>))
                else
                  (case last_opt (rs_links st) of
                     None \<Rightarrow> Err TypeError
                   | Some prev \<Rightarrow>
                       bind (next_link env firstStepIsSelf ref (rs_pseudo st) prev
                               (not_found_in (rs_pseudo st) ref i (rs_links st)) (idOnly step))
                         (\<lambda>(d, t, relevant).
                            case name_segment (rs_names st)
                                   (foreignKeyAlias ref i (l_definition prev) (rs_skip st))
                                   (idOnly step) of
                              (names, skip) \<Rightarrow>
                                Ok (d, t, st\<lparr> rs_relevant := rs_relevant st \<or> relevant,
                                               rs_names := names, rs_skip := skip \<rparr>))))
            (\<lambda>(d, t, st1).
               let l = \<lparr> l_definition = d, l_target = t,
                         l_alias = step_alias ref mt i (idOnly step),
                         l_onlyForeignKeyAccess = False, l_skipExpand = False \<rparr>
               in bind (case step_where step of
                          None \<Rightarrow> Ok (step, st1)
                        | Some w \<Rightarrow>
                            if \<not> truthy (target d) \<or> \<not> (has_next ref i \<or> expand \<or> inExists)
                            then Err FilterOnNonAssoc
                            else bind (filter_tokens (\<lambda>skip. call (Some l) skip False) w inExists
                                         (rs_jt st1))
                                   (\<lambda>(w', jt').
                                      Ok (SObj (idOnly step) (Some w'),
                                          st1\<lparr> rs_relevant := rs_relevant st1 \<or> \<not> expand,
                                               rs_jt := jt' \<rparr>)))
                    (\<lambda>(step', st2).
                       Ok (st2\<lparr> rs_links := rs_links st2 @ [l],
                                rs_steps := rs_steps st2 @ [step'],
                                rs_persisted := rs_persisted st2 \<and>
                                                \<not> target_skipped (e_model env) d \<rparr>))))"

text \<open>All rounds of \<open>column.ref.forEach\<close>.\<close>

definition resolve_steps ::
  "'j iqe_call \<Rightarrow> env \<Rightarrow> (string \<times> csn) list list \<Rightarrow> (string \<times> csn) list \<Rightarrow> link option \<Rightarrow>
   bool \<Rightarrow> bool \<Rightarrow> bool \<Rightarrow> bool \<Rightarrow> step list \<Rightarrow> meta \<Rightarrow> 'j \<Rightarrow> 'j rstate res" where
  "resolve_steps call env outerQueries queryElements baseLink inExists firstStepIsTableAlias
     firstStepIsSelf expand ref mt jt =
     foldM (resolve_step call env outerQueries queryElements baseLink inExists
              firstStepIsTableAlias firstStepIsSelf expand ref mt)
       \<lparr> rs_links = [], rs_steps = [], rs_names = [], rs_skip = [], rs_pseudo = False,
         rs_persisted = True, rs_relevant = False, rs_jt = jt \<rparr>
       [0 ..< length ref]"

text \<open>
  The end of the last round (lines 489-529): \<open>flatName\<close> and the element of the query;
  \<open>leafArt\<close> is the shortcut from \<open>$user\<close> to \<open>$user.id\<close>.
\<close>

definition leafArt :: "step list \<Rightarrow> link \<Rightarrow> csn option res" where
  "leafArt ref leaf =
     (if length ref = 1 \<and> idOnly (last ref) = ''$user''
      then (case elements (l_definition leaf) of
              None \<Rightarrow> Err TypeError
            | Some es \<Rightarrow> Ok (map_of es ''id''))
      else Ok (Some (l_definition leaf)))"

definition refNavigation :: "bool \<Rightarrow> step list \<Rightarrow> string" where
  "refNavigation skipFirst ref = join ''_'' (map idOnly (drop (if skipFirst then 1 else 0) ref))"

definition last_round ::
  "'j infer_hooks \<Rightarrow> bool \<Rightarrow> nested_projection \<Rightarrow> bool \<Rightarrow> step list \<Rightarrow> step list \<Rightarrow> meta \<Rightarrow> link \<Rightarrow>
   (string \<times> csn) list \<Rightarrow> 'j \<Rightarrow> (meta \<times> nested_projection \<times> (string \<times> csn) list \<times> 'j) res" where
  "last_round ih insertIntoQueryElements np skipFirst ref steps mt leaf queryElements jt =
     (let k = (if truthy (m_as mt) then the (m_as mt) else js_str (m_flatName mt)) in
      if m_cast mt \<noteq> None then
        bind (getElementForCast mt)
          (\<lambda>(base, mt'). Ok (mt', np,
                               if insertIntoQueryElements
                               then js_set k (getCopyWithAnnos mt' base) queryElements
                               else queryElements, jt))
      else
        (case (if is_inline np \<and> \<not> insertIntoQueryElements then NoNested else np) of
           Expand cols \<Rightarrow>
             bind (i_resolveExpand ih jt (TObj (BRef steps) mt) cols)
               (\<lambda>(els, cols', jt').
                  Ok (mt, Expand cols',
                      if insertIntoQueryElements then js_set k els queryElements
                      else queryElements, jt'))
         | Inline cols \<Rightarrow>
             bind (i_resolveInline ih jt (TObj (BRef steps) mt) cols)
               (\<lambda>(els, cols', jt').
                  Ok (mt, Inline cols', fold (\<lambda>(n, e). assign n e) els queryElements, jt'))
         | NoNested \<Rightarrow>
             bind (leafArt ref leaf)
               (\<lambda>art.
                  if insertIntoQueryElements then
                    (let elementName = (if truthy (m_as mt) then the (m_as mt)
                                        else refNavigation skipFirst ref)
                     in if js_in elementName queryElements
                        then Err (DuplicateElement elementName)
                        else (case art of
                                None \<Rightarrow> Err TypeError
                              | Some a \<Rightarrow>
                                  Ok (mt, np,
                                      assign elementName (getCopyWithAnnos mt a) queryElements,
                                      jt)))
                  else Ok (mt, np, queryElements, jt))))"

text \<open>A reference: the rounds, then the expand that is skipped and the join tree
  (lines 533-549).\<close>

definition expand_skipped :: "model \<Rightarrow> link list \<Rightarrow> bool" where
  "expand_skipped m links =
     list_ex (\<lambda>l. case target (l_definition l) of
                     None \<Rightarrow> False
                   | Some t \<Rightarrow> (case definitions m t of
                                  None \<Rightarrow> False
                                | Some d \<Rightarrow> d_persistence_skip (attrs d))) links"

definition in_sources :: "env \<Rightarrow> step list \<Rightarrow> bool" where
  "in_sources env ref =
     (case ref of [] \<Rightarrow> False | st # rest \<Rightarrow> js_in (step_str st) (e_sources env))"

definition infer_ref ::
  "'j iqe_call \<Rightarrow> 'j infer_hooks \<Rightarrow> env \<Rightarrow> (string \<times> csn) list list \<Rightarrow> bool \<Rightarrow> nested_projection \<Rightarrow>
   link option \<Rightarrow> bool \<Rightarrow> bool \<Rightarrow> step list \<Rightarrow> meta \<Rightarrow> (string \<times> csn) list \<times> 'j \<Rightarrow>
   ((token \<times> nested_projection) \<times> (string \<times> csn) list \<times> 'j) res" where
  "infer_ref call ih env outerQueries insertIntoQueryElements np baseLink inExists inExpr ref
     mt st =
     (case st of (queryElements, jt) \<Rightarrow>
      let firstStepIsTableAlias =
            ((1 < length ref \<and> in_sources env ref) \<or>
             (length ref = 1 \<and> in_sources env ref \<and> is_inline np));
          firstStepIsSelf =
            (\<not> firstStepIsTableAlias \<and> 1 < length ref \<and>
             (nth_opt ref 0 = Some (SId ''$self'') \<or> nth_opt ref 0 = Some (SId ''$projection'')))
      in
      bind (resolve_steps call env outerQueries queryElements baseLink inExists
              firstStepIsTableAlias firstStepIsSelf (is_expand np) ref mt jt)
        (\<lambda>r.
           case last_opt (rs_links r) of
             None \<Rightarrow> Err TypeError
           | Some leaf \<Rightarrow>
               bind (last_round ih insertIntoQueryElements np
                       (firstStepIsSelf \<or> firstStepIsTableAlias) ref (rs_steps r)
                       (mt\<lparr> m_refLinks := Some (rs_links r),
                            m_flatName := Some (join ''_'' (rs_names r)),
                            m_isJoinRelevant := m_isJoinRelevant mt \<or> rs_relevant r \<rparr>)
                       leaf queryElements (rs_jt r))
                 (\<lambda>(mt1, nested1, queryElements1, jt1).
                    if is_expand np \<and> expand_skipped (e_model env) (rs_links r) then
                      Ok ((TObj (BRef (rs_steps r))
                             (mt1\<lparr> m_refLinks :=
                                      Some (butlast (rs_links r) @ [leaf\<lparr>l_skipExpand := True\<rparr>]) \<rparr>),
                           nested1), queryElements1, jt1)
                    else if \<not> inExists \<and>
                            \<not> ((d_virtual (attrs (l_definition leaf)) \<or> \<not> rs_persisted r) \<and>
                               \<not> inExpr)
                    then
                      bind (isColumnJoinRelevant (is_expand np) (rs_steps r) (rs_links r))
                        (\<lambda>relevant.
                           if relevant then
                             Ok ((TObj (BRef (rs_steps r)) (mt1\<lparr>m_isJoinRelevant := True\<rparr>),
                                  nested1), queryElements1,
                                 i_mergeColumn ih jt1
                                   (TObj (BRef (rs_steps r)) (mt1\<lparr>m_isJoinRelevant := True\<rparr>)))
                           else Ok ((TObj (BRef (rs_steps r)) mt1, nested1), queryElements1, jt1))
                    else Ok ((TObj (BRef (rs_steps r)) mt1, nested1), queryElements1, jt1))))"

text \<open>
  \<open>inferQueryElement(column, insertIntoQueryElements = true, $baseLink = null, inExists =
  false, inExpr = false)\<close>: a parameter is left alone, the arguments of a function, a list
  and an expression are walked, a reference is resolved.
\<close>

primrec inferQueryElement ::
  "nat \<Rightarrow> 'j infer_hooks \<Rightarrow> env \<Rightarrow> (string \<times> csn) list list \<Rightarrow> bool \<Rightarrow> nested_projection \<Rightarrow>
   link option \<Rightarrow> bool \<Rightarrow> bool \<Rightarrow> token \<Rightarrow> (string \<times> csn) list \<times> 'j \<Rightarrow>
   ((token \<times> nested_projection) \<times> (string \<times> csn) list \<times> 'j) res" where
  "inferQueryElement 0 =
     (\<lambda>ih env outerQueries insertIntoQueryElements np baseLink inExists inExpr column st.
        NoFuel)"
| "inferQueryElement (Suc n) =
     (\<lambda>ih env outerQueries insertIntoQueryElements np baseLink inExists inExpr column st.
        case column of
          TUndef \<Rightarrow> Err TypeError
        | TStr s \<Rightarrow> Ok ((column, np), st)
        | TObj b mt \<Rightarrow>
            if m_param mt then Ok ((column, np), st)
            else
              (let call = (\<lambda>bl ex xp t jt.
                             bind (inferQueryElement n ih env outerQueries False NoNested bl ex xp
                                     t (fst st, jt))
                               (\<lambda>((t', np'), queryElements', jt'). Ok (t', jt')))
               in case b of
                    BFunc f (Some args) \<Rightarrow>
                      bind (mapS (call baseLink inExists inExpr) args (snd st))
                        (\<lambda>(args', jt'). Ok ((TObj (BFunc f (Some args')) mt, np), fst st, jt'))
                  | BJoin k args cond \<Rightarrow>
                      bind (mapS (call baseLink inExists inExpr) args (snd st))
                        (\<lambda>(args', jt'). Ok ((TObj (BJoin k args' cond) mt, np), fst st, jt'))
                  | BList xs \<Rightarrow>
                      bind (mapS (call baseLink inExists inExpr) xs (snd st))
                        (\<lambda>(xs', jt'). Ok ((TObj (BList xs') mt, np), fst st, jt'))
                  | BXpr xs \<Rightarrow>
                      bind (mapS (call baseLink inExists True) xs (snd st))
                        (\<lambda>(xs', jt'). Ok ((TObj (BXpr xs') mt, np), fst st, jt'))
                  | BRef ref \<Rightarrow>
                      infer_ref call ih env outerQueries insertIntoQueryElements np baseLink
                        inExists inExpr ref mt st
                  | _ \<Rightarrow> Ok ((column, np), st)))"


text \<open>\<open>inferQueryElement(token, false, ...)\<close>: the elements of the query stay as they are.\<close>

definition infer_token ::
  "nat \<Rightarrow> 'j infer_hooks \<Rightarrow> env \<Rightarrow> (string \<times> csn) list list \<Rightarrow> (string \<times> csn) list \<Rightarrow>
   'j iqe_call" where
  "infer_token n ih env outerQueries queryElements baseLink inExists inExpr t jt =
     bind (inferQueryElement n ih env outerQueries False NoNested baseLink inExists inExpr t
             (queryElements, jt))
       (\<lambda>((t', np), queryElements', jt'). Ok (t', jt'))"

text \<open>
  \<open>inferCombinedElements\<close> (lines 229-239). \<open>key in combinedElements\<close> holds for an inherited
  property as well, whose \<open>push\<close> is no function.
\<close>

definition combine_element ::
  "string \<Rightarrow> csn \<Rightarrow> (string \<times> (string \<times> csn) list) list \<Rightarrow> string \<times> csn \<Rightarrow>
   (string \<times> (string \<times> csn) list) list res" where
  "combine_element index tableAlias combinedElements ke =
     (case map_of combinedElements (fst ke) of
        Some tas \<Rightarrow> Ok (assign (fst ke) (tas @ [(index, tableAlias)]) combinedElements)
      | None \<Rightarrow>
          if fst ke \<in> set object_prototype then Err TypeError
          else Ok (assign (fst ke) [(index, tableAlias)] combinedElements))"

definition inferCombinedElements ::
  "(string \<times> csn) list \<Rightarrow> (string \<times> (string \<times> csn) list) list res" where
  "inferCombinedElements sources =
     foldM (\<lambda>combinedElements (index, tableAlias).
              foldM (combine_element index tableAlias) combinedElements
                (case elements tableAlias of None \<Rightarrow> [] | Some es \<Rightarrow> es))
       [] sources"

text \<open>
  \<open>inferElementsFromWildCard\<close> (lines 689-723). A single source hands its \<open>elements\<close>
  over as they are (\<open>undefined\<close> when it has none).
\<close>

definition inferElementsFromWildCard ::
  "env \<Rightarrow> string list option \<Rightarrow> (string \<times> csn) list \<Rightarrow> (string \<times> csn) list option res" where
  "inferElementsFromWildCard env excluding queryElements =
     (case (queryElements, e_sources env) of
        ([], [(alias, source)]) \<Rightarrow> Ok (elements source)
      | _ \<Rightarrow>
          bind (foldM (\<lambda>(qe, ambiguous) (n, tableAliases).
                         if 1 < length tableAliases then Ok (qe, True)
                         else if (case excluding of None \<Rightarrow> False | Some ex \<Rightarrow> n \<in> set ex) \<or>
                                 js_in n qe
                         then Ok (qe, ambiguous)
                         else (case tableAliases of
                                 [] \<Rightarrow> Err TypeError
                               | (index, tableAlias) # others \<Rightarrow>
                                   (case elements tableAlias of
                                      None \<Rightarrow> Err TypeError
                                    | Some es \<Rightarrow>
                                        (case map_of es n of
                                           None \<Rightarrow> Ok (qe, ambiguous)
                                         | Some e \<Rightarrow> Ok (assign n e qe, ambiguous)))))
                  (queryElements, False) (e_combined env))
            (\<lambda>(qe, ambiguous). if ambiguous then Err AmbiguousWildcard else Ok (Some qe)))"

text \<open>
  The columns (lines 259-300). A column is an expression when \<open>col.val !== undefined ||
  col.xpr || col.SELECT || col.func || col.param\<close>; its name is \<open>col.as || col.func ||
  col.val\<close>.
\<close>

definition column_token :: "column \<Rightarrow> (token \<times> nested_projection) option" where
  "column_token c =
     (case c of
        CStar \<Rightarrow> None
      | CCol t \<Rightarrow> Some (t, NoNested)
      | CExpand t cols \<Rightarrow> Some (t, Expand cols)
      | CInline t cols \<Rightarrow> Some (t, Inline cols))"

definition column_of :: "token \<Rightarrow> nested_projection \<Rightarrow> column" where
  "column_of t np =
     (case np of NoNested \<Rightarrow> CCol t | Expand cols \<Rightarrow> CExpand t cols | Inline cols \<Rightarrow> CInline t cols)"

definition is_expression :: "body \<Rightarrow> meta \<Rightarrow> bool" where
  "is_expression b mt =
     (case b of
        BVal v \<Rightarrow> True
      | BXpr xs \<Rightarrow> True
      | BSelect q \<Rightarrow> True
      | BFunc f args \<Rightarrow> f \<noteq> [] \<or> m_param mt
      | _ \<Rightarrow> m_param mt)"

definition column_as :: "body \<Rightarrow> meta \<Rightarrow> string option" where
  "column_as b mt =
     (if truthy (m_as mt) then m_as mt
      else (case b of
              BFunc f args \<Rightarrow> if f \<noteq> [] then Some f else None
            | BVal v \<Rightarrow> Some (string_of_val v)
            | _ \<Rightarrow> None))"

text \<open>\<open>getElementForXprOrSubquery(col)\<close> (lines 732-747).\<close>

fun xpr_tokens ::
  "(bool \<Rightarrow> token \<Rightarrow> 'j \<Rightarrow> (token \<times> 'j) res) \<Rightarrow> token list \<Rightarrow> bool \<Rightarrow> 'j \<Rightarrow> (token list \<times> 'j) res"
where
  "xpr_tokens call [] skipJoins jt = Ok ([], jt)"
| "xpr_tokens call (t # ts) skipJoins jt =
     (if t = TStr ''exists''
      then bind (xpr_tokens call ts True jt) (\<lambda>(ts', jt'). Ok (t # ts', jt'))
      else bind (call skipJoins t jt)
             (\<lambda>(t', jt'). bind (xpr_tokens call ts False jt') (\<lambda>(ts', jt''). Ok (t' # ts', jt''))))"

definition getElementForXprOrSubquery ::
  "(bool \<Rightarrow> token \<Rightarrow> 'j \<Rightarrow> (token \<times> 'j) res) \<Rightarrow> body \<Rightarrow> meta \<Rightarrow> 'j \<Rightarrow> (csn \<times> token \<times> 'j) res"
where
  "getElementForXprOrSubquery call b mt jt =
     bind (case b of
             BXpr xs \<Rightarrow> bind (xpr_tokens call xs False jt) (\<lambda>(xs', jt'). Ok (Some xs', jt'))
           | _ \<Rightarrow> Ok (None, jt))
       (\<lambda>(xpr, jt').
          bind (if m_cast mt \<noteq> None then
                  bind (getElementForCast mt) (\<lambda>(base, mt'). Ok (base, xpr, mt'))
                else
                  (case xpr of
                     Some (TObj b0 mt0 # rest) \<Rightarrow>
                       bind (getElementForCast mt0)
                         (\<lambda>(base, mt0'). Ok (base, Some (TObj b0 mt0' # rest), mt))
                   | _ \<Rightarrow> Ok (empty_def, xpr, mt)))
            (\<lambda>(base, xpr', mt').
               let keyed = (if m_key mt then Def ((attrs base)\<lparr>d_key := True\<rparr>) (elements base)
                            else base)
               in Ok (getCopyWithAnnos mt' keyed,
                      TObj (case xpr' of Some xs \<Rightarrow> BXpr xs | None \<Rightarrow> b) mt', jt')))"

text \<open>The first walk over the columns: the expressions.\<close>

definition expression_column ::
  "((string \<times> csn) list \<Rightarrow> 'j iqe_call) \<Rightarrow> body \<Rightarrow> meta \<Rightarrow> (string \<times> csn) list \<times> 'j \<Rightarrow>
   (token \<times> (string \<times> csn) list \<times> 'j) res" where
  "expression_column infer_in b mt st =
     (case st of (queryElements, jt) \<Rightarrow>
      let call = infer_in queryElements in
      (case column_as b mt of
         None \<Rightarrow> Err ExpectingAlias
       | Some as \<Rightarrow>
           if js_in as queryElements then Err (DuplicateElement as)
           else
             bind (case b of
                     BXpr xs \<Rightarrow> getElementForXprOrSubquery (\<lambda>skip. call None skip True) b mt jt
                   | BSelect q \<Rightarrow> getElementForXprOrSubquery (\<lambda>skip. call None skip True) b mt jt
                   | BFunc f args \<Rightarrow>
                       if f = [] then
                         (if m_cast mt \<noteq> None
                          then bind (getElementForCast mt) (\<lambda>(e, mt'). Ok (e, TObj b mt', jt))
                          else Ok (empty_def, TObj b mt, jt))
                       else
                         bind (case args of
                                 None \<Rightarrow> Ok (None, jt)
                               | Some as \<Rightarrow>
                                   bind (mapS (call None False False) as jt)
                                     (\<lambda>(as', jt'). Ok (Some as', jt')))
                           (\<lambda>(args', jt').
                              bind (getElementForCast mt)
                                (\<lambda>(e, mt'). Ok (e, TObj (BFunc f args') mt', jt')))
                   | BVal v \<Rightarrow>
                       if m_cast mt \<noteq> None
                       then bind (getElementForCast mt) (\<lambda>(e, mt'). Ok (e, TObj b mt', jt))
                       else Ok (getCdsTypeForVal v, TObj b mt, jt)
                   | _ \<Rightarrow>
                       if m_cast mt \<noteq> None
                       then bind (getElementForCast mt) (\<lambda>(e, mt'). Ok (e, TObj b mt', jt))
                       else Ok (empty_def, TObj b mt, jt))
               (\<lambda>(e, t, jt').
                  Ok ((case t of TObj b' mt' \<Rightarrow> TObj b' (mt'\<lparr>m_element := Some e\<rparr>) | _ \<Rightarrow> t),
                      assign as e queryElements, jt'))))"

definition is_star :: "column \<Rightarrow> bool" where
  "is_star col = (col = CStar \<or> col = CCol (TStr ''*''))"

definition first_walk ::
  "((string \<times> csn) list \<Rightarrow> 'j iqe_call) \<Rightarrow> column \<Rightarrow> (string \<times> csn) list \<times> 'j \<Rightarrow>
   (column \<times> (string \<times> csn) list \<times> 'j) res"
where
  "first_walk infer_in col st =
     (case column_token col of
        None \<Rightarrow> Ok (col, st)
      | Some (TUndef, np) \<Rightarrow> Err TypeError
      | Some (TStr s, np) \<Rightarrow> if is_star col then Ok (col, st) else Err NotSupportedColumn
      | Some (TObj b mt, np) \<Rightarrow>
          if is_expression b mt then
            bind (expression_column infer_in b mt st) (\<lambda>(t, st'). Ok (column_of t np, st'))
          else (case b of BRef ref \<Rightarrow> Ok (col, st) | _ \<Rightarrow> Err NotSupportedColumn))"

text \<open>The second walk: the references (lines 286-297).\<close>

definition ref_column ::
  "nat \<Rightarrow> 'j infer_hooks \<Rightarrow> env \<Rightarrow> (string \<times> csn) list list \<Rightarrow> column \<Rightarrow>
   (string \<times> csn) list \<times> 'j \<Rightarrow> (column \<times> (string \<times> csn) list \<times> 'j) res" where
  "ref_column n ih env outerQueries col st =
     (case column_token col of
        Some (TObj (BRef ref) mt, np) \<Rightarrow>
          if m_param mt then Ok (col, st)
          else
            bind (inferQueryElement n ih env outerQueries True np None False False
                    (TObj (BRef ref) mt) st)
              (\<lambda>((t, np'), queryElements, jt).
                 case t of
                   TObj b' mt' \<Rightarrow>
                     (case last_opt (case m_refLinks mt' of None \<Rightarrow> [] | Some ls \<Rightarrow> ls) of
                        None \<Rightarrow> Err TypeError
                      | Some leaf \<Rightarrow>
                          bind (if m_cast mt' \<noteq> None
                                then bind (getElementForCast mt') (\<lambda>(e, mt''). Ok (Some e, mt''))
                                else if ref = [SId ''$user'']
                                then Ok (js_get queryElements
                                           (if truthy (m_as mt') then the (m_as mt')
                                            else ''$user''), mt')
                                else Ok (Some (l_definition leaf), mt'))
                            (\<lambda>(e, mt'').
                               Ok (column_of (TObj b' (mt''\<lparr>m_element := e\<rparr>)) np',
                                   queryElements, jt)))
                 | _ \<Rightarrow> Err TypeError)
      | _ \<Rightarrow> Ok (col, st))"


text \<open>
  \<open>inferQueryElements($combinedElements)\<close> (lines 255-345): the columns, then the
  references of \<open>orderBy\<close>, \<open>where\<close>, \<open>groupBy\<close>, \<open>having\<close> and \<open>with\<close>.
\<close>

definition order_base :: "bool \<Rightarrow> (string \<times> csn) list option \<Rightarrow> token \<Rightarrow> link option res" where
  "order_base hasColumns queryElements t =
     (if t = TUndef then Err TypeError
      else if \<not> hasColumns then Ok None
      else (case queryElements of
              None \<Rightarrow> Err TypeError
            | Some qe \<Rightarrow>
                (case js_get qe (case t of
                                   TObj (BRef (st # rest)) mt \<Rightarrow> step_str st
                                 | _ \<Rightarrow> ''undefined'') of
                   None \<Rightarrow> Ok None
                 | Some e \<Rightarrow>
                     if d_assocExpand (attrs e) then Ok None
                     else Ok (Some \<lparr> l_definition = Def no_attrs (Some qe),
                                     l_target = Some (Def (no_attrs\<lparr>d_SELECT := True\<rparr>) (Some qe)),
                                     l_alias = [], l_onlyForeignKeyAccess = False,
                                     l_skipExpand = False \<rparr>))))"

definition opt_tokens ::
  "(token list \<Rightarrow> 'j \<Rightarrow> (token list \<times> 'j) res) \<Rightarrow> token list option \<Rightarrow> 'j \<Rightarrow>
   (token list option \<times> 'j) res" where
  "opt_tokens f ts jt =
     (case ts of None \<Rightarrow> Ok (None, jt) | Some l \<Rightarrow> bind (f l jt) (\<lambda>(l', jt'). Ok (Some l', jt')))"

definition inferQueryElements ::
  "nat \<Rightarrow> 'j infer_hooks \<Rightarrow> env \<Rightarrow> (string \<times> csn) list list \<Rightarrow> select \<Rightarrow> token list option \<Rightarrow> 'j \<Rightarrow>
   (select \<times> token list option \<times> (string \<times> csn) list option \<times> 'j) res" where
  "inferQueryElements n ih env outerQueries q with jt =
     bind (case s_columns q of
             None \<Rightarrow>
               bind (inferElementsFromWildCard env (s_excluding q) [])
                 (\<lambda>qe. Ok (None, qe, jt))
           | Some columns \<Rightarrow>
               bind (mapS (first_walk (infer_token n ih env outerQueries)) columns ([], jt))
                 (\<lambda>(columns1, st1).
               bind (mapS (ref_column n ih env outerQueries) columns1 st1)
                 (\<lambda>(columns2, qe, jt2).
                    if list_ex is_star columns
                    then bind (inferElementsFromWildCard env (s_excluding q) qe)
                           (\<lambda>qe'. Ok (Some columns2, qe', jt2))
                    else Ok (Some columns2, Some qe, jt2))))
       (\<lambda>(columns', queryElements, jt1).
          let qe = (case queryElements of None \<Rightarrow> [] | Some l \<Rightarrow> l);
              inferIn = infer_token n ih env outerQueries qe
          in
          bind (opt_tokens
                  (mapS (\<lambda>t j. bind (order_base (s_columns q \<noteq> None) queryElements t)
                                  (\<lambda>baseLink. inferIn baseLink False False t j)))
                  (s_orderBy q) jt1)
            (\<lambda>(orderBy', jt2).
          bind (opt_tokens
                  (\<lambda>ts j. bind (walkTokenStream n (\<lambda>skipJoins. inferIn None skipJoins True) ts
                                   (False, j))
                             (\<lambda>(ts', skip, j'). Ok (ts', j')))
                  (s_where q) jt2)
            (\<lambda>(where', jt3).
          bind (opt_tokens (mapS (inferIn None False False)) (s_groupBy q) jt3)
            (\<lambda>(groupBy', jt4).
          bind (opt_tokens (mapS (inferIn None False False)) (s_having q) jt4)
            (\<lambda>(having', jt5).
          bind (opt_tokens (mapS (inferIn None False False)) with jt5)
            (\<lambda>(with', jt6).
               Ok (Select (s_from q) columns' where' having' groupBy' orderBy' (s_excluding q)
                     (s_localized q),
                   with', queryElements, jt6)))))))"

text \<open>
  A query object: \<open>SET\<close> (the arguments of a union), \<open>SELECT\<close>, the first that is present of
  \<open>INSERT\<close>, \<open>UPSERT\<close>, \<open>UPDATE\<close>, \<open>DELETE\<close>, \<open>CREATE\<close>, \<open>DROP\<close>, \<open>STREAM\<close> (its name, its body with
  \<open>from || into || entity\<close> as the from clause, and the values of \<open>with\<close>), and the hidden
  \<open>outerQueries\<close> (the sources of each). The inferred query carries \<open>sources\<close>, \<open>target\<close>
  (\<open>None\<close> is the query itself), \<open>$combinedElements\<close>, \<open>elements\<close> and \<open>joinTree\<close>.
\<close>

record query =
  q_SET :: "token list option"
  q_SELECT :: "select option"
  q_other :: "(string \<times> select \<times> token list option) option"
  q_outerQueries :: "(string \<times> csn) list list"

record 'j inferred =
  inf_query :: query
  inf_sources :: "(string \<times> csn) list"
  inf_target :: "csn option"
  inf_combined :: "(string \<times> (string \<times> csn) list) list"
  inf_elements :: "(string \<times> csn) list option"
  inf_joinTree :: "'j option"

definition select_query :: "select \<Rightarrow> query" where
  "select_query q = \<lparr> q_SET = None, q_SELECT = Some q, q_other = None, q_outerQueries = [] \<rparr>"

definition set_from :: "select \<Rightarrow> token \<Rightarrow> select" where
  "set_from q f =
     Select f (s_columns q) (s_where q) (s_having q) (s_groupBy q) (s_orderBy q) (s_excluding q)
       (s_localized q)"

definition with_body :: "query \<Rightarrow> select \<Rightarrow> token list option \<Rightarrow> query" where
  "with_body q body with =
     (if q_SELECT q \<noteq> None then q\<lparr>q_SELECT := Some body\<rparr>
      else q\<lparr>q_other := map_option (\<lambda>(k, b, w). (k, body, with)) (q_other q)\<rparr>)"

text \<open>
  \<open>infer(originalQuery, model)\<close> (lines 27-77). \<open>cds.ql.clone\<close> is the identity here: the
  result is a new value anyway.
\<close>

primrec infer :: "nat \<Rightarrow> 'j infer_hooks \<Rightarrow> csn \<Rightarrow> query \<Rightarrow> model option \<Rightarrow> 'j inferred res" where
  "infer 0 = (\<lambda>ih pseudos originalQuery model. NoFuel)"
| "infer (Suc n) = (\<lambda>ih pseudos originalQuery model.
     case model of
       None \<Rightarrow> Err NoModel
     | Some m \<Rightarrow>
         if q_SET originalQuery \<noteq> None then Err UnionNotSupported
         else
           (case (case q_SELECT originalQuery of
                    Some s \<Rightarrow> Some (''SELECT'', s, None)
                  | None \<Rightarrow> q_other originalQuery) of
              None \<Rightarrow> Err TypeError
            | Some (k, body, with) \<Rightarrow>
                bind (inferTarget (Suc n)
                        (\<lambda>sub. bind (infer n ih pseudos (select_query sub) model)
                                  (\<lambda>r. case q_SELECT (inf_query r) of
                                          None \<Rightarrow> Err TypeError
                                        | Some sub' \<Rightarrow> Ok (sub', inf_elements r)))
                        m (s_from body) [])
                  (\<lambda>(from', sources).
                     let target = (case sources of [(alias, d)] \<Rightarrow> Some d | _ \<Rightarrow> None)
                     in if k \<in> {''SELECT'', ''DELETE'', ''UPDATE'', ''STREAM''} then
                          bind (inferCombinedElements sources)
                            (\<lambda>combined.
                          bind (inferQueryElements n ih
                                  \<lparr> e_model = m, e_sources = sources, e_combined = combined,
                                    e_localized = s_localized body, e_pseudos = pseudos \<rparr>
                                  (q_outerQueries originalQuery) (set_from body from') with
                                  (i_JoinTree ih sources))
                            (\<lambda>(body', with', queryElements, jt).
                               Ok \<lparr> inf_query = with_body originalQuery body' with',
                                    inf_sources = sources, inf_target = target,
                                    inf_combined = combined, inf_elements = queryElements,
                                    inf_joinTree = Some jt \<rparr>))
                        else
                          Ok \<lparr> inf_query = with_body originalQuery (set_from body from') with,
                               inf_sources = sources, inf_target = target, inf_combined = [],
                               inf_elements = None, inf_joinTree = None \<rparr>)))"





section \<open>The chain of subqueries of a from clause, as the specification words it\<close>








section \<open>The expansion of a comparison, as the specification words it\<close>

text \<open>
  "Emit \<open>(L1 op R1 connective L2 op R2 ...)\<close>; connective is AND for equality-like
  operators, OR for not-equal-like operators": \<open>emit\<close> joins the comparisons with the
  connective, \<open>connective\<close> chooses it.
\<close>

fun emit :: "token \<Rightarrow> token list list \<Rightarrow> token list" where
  "emit c [] = []"
| "emit c [x] = x"
| "emit c (x # y # ys) = x @ [c] @ emit c (y # ys)"

definition connective :: "string list \<Rightarrow> token" where
  "connective operator = (if operator \<in> set eqOps then TStr ''and'' else TStr ''or'')"


section \<open>An example model\<close>

text \<open>
  A bookshop for the concrete inputs: \<open>Books {key ID; title; author: Association to Authors;
  dedication: {addressee; text}; stock: {amount}}\<close> and \<open>Authors {key ID; name}\<close>. The only
  source of the example query is \<open>Books\<close>, the join tree is the list of the aliases in use.
\<close>

definition scalar_of :: "string \<Rightarrow> string \<Rightarrow> csn" where
  "scalar_of entity n =
     Def (no_attrs\<lparr> d_name := Some n, d_kind := Some ''element'',
            d_parent := Parent (Some ''entity'') (Some entity) NoParent \<rparr>) None"

definition leaf_of :: "string \<Rightarrow> string \<Rightarrow> string \<Rightarrow> csn" where
  "leaf_of entity struct n =
     Def (no_attrs\<lparr> d_name := Some n, d_kind := Some ''element'',
            d_parent := Parent (Some ''element'') (Some struct)
                          (Parent (Some ''entity'') (Some entity) NoParent) \<rparr>) None"

definition struct_of :: "string \<Rightarrow> string \<Rightarrow> string list \<Rightarrow> csn" where
  "struct_of entity n leaves =
     Def (no_attrs\<lparr> d_name := Some n, d_kind := Some ''element'',
            d_parent := Parent (Some ''entity'') (Some entity) NoParent \<rparr>)
       (Some (map (\<lambda>l. (l, leaf_of entity n l)) leaves))"

definition Books_author :: csn where
  "Books_author =
     Def (no_attrs\<lparr> d_name := Some ''author'', d_kind := Some ''element'',
            d_parent := Parent (Some ''entity'') (Some ''Books'') NoParent,
            d_keys := Some (FKeys [FKey [''ID''] None]), d_foreignKeys := Some [''ID''],
            d_target := Some ''Authors'', d_isAssociation := True \<rparr>) None"

definition Books :: csn where
  "Books =
     Def (no_attrs\<lparr> d_name := Some ''Books'', d_kind := Some ''entity'',
            d_keys := Some (KeyNames [''ID'']) \<rparr>)
       (Some [(''ID'', scalar_of ''Books'' ''ID''), (''title'', scalar_of ''Books'' ''title''),
              (''author'', Books_author),
              (''dedication'', struct_of ''Books'' ''dedication'' [''addressee'', ''text'']),
              (''stock'', struct_of ''Books'' ''stock'' [''amount''])])"

definition Authors :: csn where
  "Authors =
     Def (no_attrs\<lparr> d_name := Some ''Authors'', d_kind := Some ''entity'',
            d_keys := Some (KeyNames [''ID'']) \<rparr>)
       (Some [(''ID'', scalar_of ''Authors'' ''ID''), (''name'', scalar_of ''Authors'' ''name'')])"

definition bookshop :: model where
  "bookshop = [(''Books'', Books), (''Authors'', Authors)]"

definition example_pseudos :: csn where
  "example_pseudos =
     Def no_attrs
       (Some [(''$user'',
               Def (no_attrs\<lparr>d_name := Some ''$user''\<rparr>)
                 (Some [(''id'', Def (no_attrs\<lparr>d_name := Some ''id''\<rparr>) None)]))])"

definition example_env :: env where
  "example_env =
     \<lparr> e_model = bookshop, e_sources = [(''Books'', Books)],
       e_combined = map (\<lambda>n. (n, [(''Books'', Books)]))
                      [''ID'', ''title'', ''author'', ''dedication'', ''stock''],
       e_localized = False, e_pseudos = example_pseudos \<rparr>"

definition example_hooks :: "string list hooks" where
  "example_hooks =
     \<lparr> h_addNextAvailableTableAlias =
         (\<lambda>used a. (if a \<in> set used then a @ ''2'' else a, a # used)),
       h_transformSubquery = (\<lambda>q. Ok q),
       h_calculateOnCondition = (\<lambda>assocRefLink targetSideRefLink inWhereOrJoin cond. Ok []) \<rparr>"

definition link_of :: "csn \<Rightarrow> csn \<Rightarrow> string \<Rightarrow> link" where
  "link_of d t a =
     \<lparr> l_definition = d, l_target = Some t, l_alias = a, l_onlyForeignKeyAccess = False,
       l_skipExpand = False \<rparr>"

text \<open>A reference of one step to an element of \<open>Books\<close>, as the inference annotates it.\<close>

definition books_ref :: "string \<Rightarrow> csn \<Rightarrow> csn \<Rightarrow> token" where
  "books_ref n d t =
     TObj (BRef [SId n])
       (no_meta\<lparr> m_refLinks := Some [link_of d t n], m_flatName := Some n \<rparr>)"

definition title_ref :: token where
  "title_ref = books_ref ''title'' (scalar_of ''Books'' ''title'') Books"

definition dedication_ref :: token where
  "dedication_ref =
     books_ref ''dedication'' (struct_of ''Books'' ''dedication'' [''addressee'', ''text'']) Books"

definition stock_ref :: token where
  "stock_ref = books_ref ''stock'' (struct_of ''Books'' ''stock'' [''amount'']) Books"

definition author_ref :: token where
  "author_ref = books_ref ''author'' Books_author Authors"

definition empty_list :: token where
  "empty_list = TObj (BList []) no_meta"


text \<open>
  For the inference: the join tree is the list of the aliases of the sources, nothing is
  merged into it, and nested projections have no elements.
\<close>

definition example_infer_hooks :: "string list infer_hooks" where
  "example_infer_hooks =
     \<lparr> i_JoinTree = (\<lambda>sources. map fst sources),
       i_mergeColumn = (\<lambda>jt column. jt),
       i_resolveExpand = (\<lambda>jt column cols. Ok (empty_def, cols, jt)),
       i_resolveInline = (\<lambda>jt column cols. Ok ([], cols, jt)) \<rparr>"


text \<open>A union of two queries, and the column \<open>1 + 1\<close> without alias.\<close>

definition union_query :: query where
  "union_query =
     \<lparr> q_SET = Some [TObj (BSelect (Select (ref_of [''Books''] no_meta) None None None None None
                                       None False)) no_meta,
                      TObj (BSelect (Select (ref_of [''Authors''] no_meta) None None None None None
                                       None False)) no_meta],
       q_SELECT = None, q_other = None, q_outerQueries = [] \<rparr>"






section \<open>Empty lists after \<open>in\<close> and \<open>not in\<close>\<close>

text \<open>
  On a stream whose earlier tokens go one to one into the output, the empty list after
  \<open>in\<close> turns the comparison into \<open>= null\<close>, and after \<open>not in\<close> into \<open>is not null\<close>.
\<close>

lemma empty_list_after_in:
  "getTransformedTokenStream 3 example_hooks example_env [title_ref, TStr ''in'', empty_list] None []
     = Ok ([ref_of [''Books'', ''title''] no_meta, TStr ''='', val_of VNull], [])"
  by code_simp

lemma empty_list_after_not_in:
  "getTransformedTokenStream 3 example_hooks example_env
       [title_ref, TStr ''not'', TStr ''in'', empty_list] None []
     = Ok ([ref_of [''Books'', ''title''] no_meta, TStr ''is'', TStr ''not'', TStr ''null''], [])"
  by code_simp

text \<open>
  Claim C4. The empty list after \<open>in\<close> is to replace the comparison by \<open>= null\<close>. The source
  does so with \<open>transformedWhere.splice(i - 1, 1, '=', {val: null})\<close>, where \<open>i\<close> is the index
  in the input. In \<open>dedication = null and title in ()\<close> the comparison of the structure has
  become one \<open>xpr\<close> token, the output is two tokens shorter than the input, the index lies
  beyond its end, and \<open>splice\<close> appends: \<open>in\<close> stays and \<open>= null\<close> follows it.
\<close>

theorem empty_list_after_in_misplaced:
  "(case getTransformedTokenStream 3 example_hooks example_env
           [dedication_ref, TStr ''='', val_of VNull, TStr ''and'',
            title_ref, TStr ''in'', empty_list] None [] of
      Ok (out, jt) \<Rightarrow>
        map copy out =
          [asXpr [ref_of [''Books'', ''dedication_addressee''] no_meta, TStr ''='', val_of VNull,
                  TStr ''and'',
                  ref_of [''Books'', ''dedication_text''] no_meta, TStr ''='', val_of VNull],
           TStr ''and'', ref_of [''Books'', ''title''] no_meta, TStr ''in'', TStr ''='',
           val_of VNull]
    | _ \<Rightarrow> False)"
  by code_simp

section \<open>Infix filters of a single value\<close>

text \<open>
  The filter \<open>[1]\<close> on the association \<open>author\<close>, whose target has the single key \<open>ID\<close>,
  becomes \<open>author.ID = 1\<close>.
\<close>

lemma infix_filter_truthy_value:
  "(case getTransformedTokenStream 3 example_hooks example_env [val_of (VNum 1)]
           (Some (link_of Books_author Authors ''author'')) [] of
      Ok (out, jt) \<Rightarrow>
        map copy out = [ref_of [''author'', ''ID''] no_meta, TStr ''='', val_of (VNum 1)]
    | _ \<Rightarrow> False)"
  by code_simp

text \<open>
  Claim C9. The filter of a single literal value is to become \<open><key> = <value>\<close>. The source
  tests \<open>token.val\<close> for truthiness, so the filter \<open>[0]\<close> (as \<open>['']\<close>, \<open>[false]\<close>, \<open>[null]\<close>) does
  not take the branch: the value is copied into the output as it is.
\<close>

theorem infix_filter_falsy_value:
  "getTransformedTokenStream 3 example_hooks example_env [val_of (VNum 0)]
       (Some (link_of Books_author Authors ''author'')) []
     = Ok ([val_of (VNum 0)], [])"
  by code_simp

section \<open>Comparison of a structure with a value\<close>

lemma bind_Ok: "bind (Ok x) f = f x"
  by (simp add: bind_def)


text \<open>One round of the loop at such a comparison.\<close>

lemma nth_opt_drop:
  "drop i ts = xs \<Longrightarrow> nth_opt ts (i + k) = nth_opt xs k"
  by (auto simp: nth_opt_def)

lemma comparison_round:
  assumes shape: "drop i ts = L # map TStr operator @ V # post"
      and L: "L = TObj (BRef ref) mt" "\<not> m_param mt" "\<not> is_pseudo_ref env L"
      and links: "m_refLinks mt = Some links" "last_opt links = Some leaf"
      and struct: "elements (l_definition leaf) \<noteq> None \<or> keys (l_definition leaf) \<noteq> None"
      and op: "operator \<in> set allOps"
      and V: "V = TStr ''null'' \<or> (\<exists>v vmt. V = TObj (BVal v) vmt \<and> m_refLinks vmt = None)"
  shows "transform_token call hooks env n base ts i out jt =
           (if operator \<in> set notSupportedOps
            then Err (UnsupportedStructuralComparison (hd operator))
            else bind (flattenWithBaseName env n L links)
                   (\<lambda>flatLhs.
                      if 1 < length flatLhs \<and> \<not> is_null_value V
                      then Err CannotCompareStructWithValue
                      else Ok (Suc (length operator),
                               out @ (if (0 < i \<and> truthy_tok (nth_opt ts (i - 1))) \<or>
                                         truthy_tok (nth_opt ts (i + length operator + 2))
                                      then [asXpr (compare_each (map TStr operator) V flatLhs)]
                                      else compare_each (map TStr operator) V flatLhs),
                               jt)))"
proof -
  have il: "i < length ts" using shape by (cases "i < length ts") auto
  have t0: "ts ! i = L" using shape il by (metis nth_via_drop)
  have nn: "links \<noteq> []" using links(2) by (cases links) auto
  have one_two: "(\<exists>a. operator = [a]) \<or> operator = [''is'', ''not'']"
    using op by (auto simp: allOps_def eqOps_def notEqOps_def notSupportedOps_def)
  have V2: "V \<noteq> TUndef" "\<not> is_second_op allOps (Some V)" "links_of V = None"
      "rhs_comparable V = Ok True"
    using V
    by (auto simp: links_of_def rhs_comparable_def is_val_def is_second_op_def allOps_def
        eqOps_def notEqOps_def notSupportedOps_def nth_opt_def)
  have ex: "expandComparison env n L ops V =
          bind (flattenWithBaseName env n L links)
            (\<lambda>flatLhs. if 1 < length flatLhs \<and> \<not> is_null_value V
                        then Err CannotCompareStructWithValue
                        else Ok (compare_each ops V flatLhs))" for ops
    using L links nn V2 by (simp add: expandComparison_def links_of_def)
  have t1: "tok_at ts (i + 1) = Some (TStr (hd operator))"
    using nth_opt_drop[OF shape, of 1] one_two
    by (auto simp: tok_at_def nth_opt_def)
  have isc: "is_comparison ts i"
    using L links struct op t1 t0 one_two
    by (auto simp: is_comparison_def is_first_op_def def_of_token_def links_of_def nth_opt_def
        intro!: bexI[of _ operator])
  have pre: "transform_token call hooks env n base ts i out jt =
               bind (comparison_token env n ts i out) (\<lambda>(skip, out). Ok (skip, out, jt))"
    using L isc t0 by (simp add: transform_token_def)
  from one_two show ?thesis
  proof
    assume "\<exists>a. operator = [a]"
    then obtain a where a: "operator = [a]" by blast
    have t2: "tok_at ts (i + 2) = Some V"
      using nth_opt_drop[OF shape, of 2] V2(1) a
      by (cases V) (auto simp: tok_at_def nth_opt_def)
    have ns: "is_first_op notSupportedOps (Some (TStr a)) = (operator \<in> set notSupportedOps)"
      using a by (auto simp: notSupportedOps_def is_first_op_def nth_opt_def)
    have ct: "comparison_token env n ts i out =
          (if operator \<in> set notSupportedOps
            then Err (UnsupportedStructuralComparison (hd operator))
            else bind (flattenWithBaseName env n L links)
                   (\<lambda>flatLhs.
                      if 1 < length flatLhs \<and> \<not> is_null_value V
                      then Err CannotCompareStructWithValue
                      else Ok (Suc (length operator),
                               out @ (if (0 < i \<and> truthy_tok (nth_opt ts (i - 1))) \<or>
                                         truthy_tok (nth_opt ts (i + length operator + 2))
                                      then [asXpr (compare_each (map TStr operator) V flatLhs)]
                                      else compare_each (map TStr operator) V flatLhs))))"
      using V2 ns t0 t1 t2 a
      by (auto simp: comparison_token_def ex bind_def Let_def string_of_token_def
          eval_nat_numeral split: res.splits)
    show ?thesis
      unfolding pre ct by (auto simp: bind_def split: res.splits)
  next
    assume a: "operator = [''is'', ''not'']"
    have t2: "tok_at ts (i + 2) = Some (TStr ''not'')"
      using nth_opt_drop[OF shape, of 2] a by (auto simp: tok_at_def nth_opt_def)
    have t3: "tok_at ts (i + 3) = Some V"
      using nth_opt_drop[OF shape, of 3] V2(1) a
      by (cases V) (auto simp: tok_at_def nth_opt_def)
    have so: "is_second_op allOps (Some (TStr ''not''))"
      by (auto simp: is_second_op_def allOps_def notEqOps_def nth_opt_def)
    have ns: "\<not> is_first_op notSupportedOps (Some (TStr ''is''))" "operator \<notin> set notSupportedOps"
      using a by (auto simp: notSupportedOps_def is_first_op_def nth_opt_def)
    have ct: "comparison_token env n ts i out =
           bind (flattenWithBaseName env n L links)
                   (\<lambda>flatLhs.
                      if 1 < length flatLhs \<and> \<not> is_null_value V
                      then Err CannotCompareStructWithValue
                      else Ok (Suc (length operator),
                               out @ (if (0 < i \<and> truthy_tok (nth_opt ts (i - 1))) \<or>
                                         truthy_tok (nth_opt ts (i + length operator + 2))
                                      then [asXpr (compare_each (map TStr operator) V flatLhs)]
                                      else compare_each (map TStr operator) V flatLhs)))"
      using V2 ns t0 t1 t2 t3 a so
      by (auto simp: comparison_token_def ex bind_def Let_def string_of_token_def
          eval_nat_numeral split: res.splits)
    show ?thesis
      unfolding pre ct using ns(2) by (auto simp: bind_def split: res.splits)
  qed
qed


text \<open>
  Claim C6, as the code has it. Let the loop over a token stream be at a reference \<open>L\<close> to a
  structure or managed association (no parameter, no pseudo path) that is followed by an
  operator of \<open>allOps\<close> and a value \<open>V\<close>, a literal or \<open>null\<close>. With \<open><\<close>, \<open><=\<close>, \<open>>\<close>, \<open>>=\<close> the
  rewrite fails with \<open>UnsupportedStructuralComparison\<close>, whatever the value. With \<open>=\<close>, \<open>is\<close>,
  \<open><>\<close>, \<open>!=\<close>, \<open>is not\<close> the operand is flattened (an error of the flattening is the result);
  the rewrite fails with \<open>CannotCompareStructWithValue\<close> exactly when \<open>L\<close> flattens to more
  than one column and \<open>V\<close> is not null; otherwise every column is compared with \<open>V\<close>, the
  comparisons are put in an \<open>xpr\<close> when a token stands before or after the comparison, and
  the loop goes on behind \<open>V\<close>.
\<close>

theorem struct_value_comparison:
  assumes shape: "drop i ts = L # map TStr operator @ V # post"
      and L: "L = TObj (BRef ref) mt" "\<not> m_param mt" "\<not> is_pseudo_ref env L"
      and links: "m_refLinks mt = Some links" "last_opt links = Some leaf"
      and struct: "elements (l_definition leaf) \<noteq> None \<or> keys (l_definition leaf) \<noteq> None"
      and op: "operator \<in> set allOps"
      and V: "V = TStr ''null'' \<or> (\<exists>v vmt. V = TObj (BVal v) vmt \<and> m_refLinks vmt = None)"
  shows "tokens_loop (transform_token (getTransformedTokenStream n hooks env) hooks env n base)
           ts i out jt =
           (if operator \<in> set notSupportedOps
            then Err (UnsupportedStructuralComparison (hd operator))
            else bind (flattenWithBaseName env n L links)
                   (\<lambda>flatLhs.
                      if 1 < length flatLhs \<and> \<not> is_null_value V
                      then Err CannotCompareStructWithValue
                      else tokens_loop
                             (transform_token (getTransformedTokenStream n hooks env) hooks env n base)
                             ts (i + length operator + 2)
                             (out @ (if (0 < i \<and> truthy_tok (nth_opt ts (i - 1))) \<or>
                                        truthy_tok (nth_opt ts (i + length operator + 2))
                                     then [asXpr (compare_each (map TStr operator) V flatLhs)]
                                     else compare_each (map TStr operator) V flatLhs))
                             jt))"
proof -
  have il: "\<not> length ts \<le> i" using shape by (cases "i < length ts") auto
  show ?thesis
    apply (subst tokens_loop.simps)
    apply (simp only: il if_False comparison_round[OF shape L links struct op V])
    apply (auto simp: bind_def split: res.splits)
    done
qed

text \<open>
  The structure \<open>dedication\<close> has two leaves: comparing it with 5 is the error, and
  \<open>dedication < null\<close> is the error of the operator.
\<close>

theorem struct_value_comparison_witness:
  "getTransformedTokenStream 3 example_hooks example_env
       [dedication_ref, TStr ''='', val_of (VNum 5)] None []
     = Err CannotCompareStructWithValue \<and>
   getTransformedTokenStream 3 example_hooks example_env
       [dedication_ref, TStr ''<'', val_of VNull] None []
     = Err (UnsupportedStructuralComparison ''<'')"
proof -
  let ?d = "struct_of ''Books'' ''dedication'' [''addressee'', ''text'']"
  let ?mt = "no_meta\<lparr> m_refLinks := Some [link_of ?d Books ''dedication''],
                       m_flatName := Some ''dedication'' \<rparr>"
  let ?round = "transform_token (getTransformedTokenStream 2 example_hooks example_env)
                  example_hooks example_env 2 None"
  have L: "dedication_ref = TObj (BRef [SId ''dedication'']) ?mt"
    by (simp add: dedication_ref_def books_ref_def)
  have p: "\<not> m_param ?mt" by (simp add: no_meta_def)
  have ps: "\<not> is_pseudo_ref example_env dedication_ref" by code_simp
  have l1: "m_refLinks ?mt = Some [link_of ?d Books ''dedication'']" by simp
  have l2: "last_opt [link_of ?d Books ''dedication''] = Some (link_of ?d Books ''dedication'')"
    by simp
  have st: "elements (l_definition (link_of ?d Books ''dedication'')) \<noteq> None \<or>
            keys (l_definition (link_of ?d Books ''dedication'')) \<noteq> None"
    by (simp add: link_of_def struct_of_def)
  have op: "[''=''] \<in> set allOps" "[''=''] \<notin> set notSupportedOps"
    by (simp_all add: allOps_def eqOps_def notSupportedOps_def)
  have lt: "[''<''] \<in> set allOps" "[''<''] \<in> set notSupportedOps"
    by (simp_all add: allOps_def notSupportedOps_def)
  have V: "val_of (VNum 5) = TStr ''null'' \<or>
           (\<exists>v vmt. val_of (VNum 5) = TObj (BVal v) vmt \<and> m_refLinks vmt = None)"
    by (simp add: val_of_def no_meta_def)
  have N: "val_of VNull = TStr ''null'' \<or>
           (\<exists>v vmt. val_of VNull = TObj (BVal v) vmt \<and> m_refLinks vmt = None)"
    by (simp add: val_of_def no_meta_def)
  have s1: "drop 0 [dedication_ref, TStr ''='', val_of (VNum 5)] =
              dedication_ref # map TStr [''=''] @ val_of (VNum 5) # []"
    by simp
  have s2: "drop 0 [dedication_ref, TStr ''<'', val_of VNull] =
              dedication_ref # map TStr [''<''] @ val_of VNull # []"
    by simp
  have len: "(case flattenWithBaseName example_env 2 dedication_ref
                     [link_of ?d Books ''dedication''] of
                Ok cols \<Rightarrow> length cols = 2 | _ \<Rightarrow> False)"
    by code_simp
  then obtain cols where flat: "flattenWithBaseName example_env 2 dedication_ref
      [link_of ?d Books ''dedication''] = Ok cols" and two: "length cols = 2"
    by (auto split: res.splits)
  have nv: "\<not> is_null_value (val_of (VNum 5))" by code_simp
  have a: "tokens_loop ?round [dedication_ref, TStr ''='', val_of (VNum 5)] 0 [] []
             = Err CannotCompareStructWithValue"
    using struct_value_comparison [OF s1 L p ps l1 l2 st op(1) V, of 2 example_hooks None "[]" "[]"]
      op(2) flat two nv
    by (simp add: bind_Ok)
  have b: "tokens_loop ?round [dedication_ref, TStr ''<'', val_of VNull] 0 [] []
             = Err (UnsupportedStructuralComparison ''<'')"
    using struct_value_comparison [OF s2 L p ps l1 l2 st lt(1) N, of 2 example_hooks None "[]" "[]"]
      lt(2)
    by simp
  show ?thesis
    using a b by (simp add: numeral_3_eq_3 numeral_2_eq_2)
qed

text \<open>
  Claim C6, as stated, fails: the structure \<open>stock\<close> has the single leaf \<open>amount\<close>, and
  \<open>stock = 5\<close> is rewritten to \<open>Books.stock_amount = 5\<close> without an error.
\<close>

theorem struct_single_leaf_compared_with_value:
  "(case getTransformedTokenStream 3 example_hooks example_env
           [stock_ref, TStr ''='', val_of (VNum 5)] None [] of
      Ok (out, jt) \<Rightarrow>
        map copy out = [ref_of [''Books'', ''stock_amount''] no_meta, TStr ''='', val_of (VNum 5)]
    | _ \<Rightarrow> False)"
  by code_simp


section \<open>Comparison of structures\<close>

lemma compare_each_emit:
  "compare_each ops v cols = emit (boolOp ops) (map (\<lambda>c. c # ops @ [v]) cols)"
  by (induction ops v cols rule: compare_each.induct) auto


lemma findIndex_path_Some:
  "findIndex_path p rs = Ok (Some k) \<Longrightarrow> k < length rs \<and> same_path p (rs ! k) = Ok True"
proof (induction rs arbitrary: k)
  case Nil
  then show ?case by simp
next
  case (Cons r rs)
  show ?case
  proof (cases "same_path p r")
    case (Ok b)
    show ?thesis
    proof (cases b)
      case True
      with Ok Cons.prems show ?thesis by (simp add: bind_def)
    next
      case False
      with Ok Cons.prems obtain k' where "findIndex_path p rs = Ok (Some k')" "k = Suc k'"
        by (auto simp: bind_def split: res.splits option.splits)
      with Cons.IH show ?thesis by simp
    qed
  next
    case (Err e)
    with Cons.prems show ?thesis by (simp add: bind_def)
  next
    case NoFuel
    with Cons.prems show ?thesis by (simp add: bind_def)
  qed
qed

lemma match_leaves_Cons:
  "match_leaves ops (l # ls) rhs = Ok (out, left) \<Longrightarrow>
     \<exists>lp found. csn_path_of l = Ok lp \<and> findIndex_path (tl lp) rhs = Ok found \<and>
       (case found of
          None \<Rightarrow> match_leaves ops ls rhs = Ok (out, left)
        | Some k \<Rightarrow> \<exists>rest. match_leaves ops ls (take k rhs @ drop (Suc k) rhs) = Ok (rest, left) \<and>
             out = [ref_only l] @ ops @ [rhs ! k] @ (if ls \<noteq> [] then [boolOp ops] else []) @ rest)"
  apply (simp add: bind_def split: res.splits option.splits prod.splits)
  apply (cases ls)
   apply auto
  done

lemma match_leaves_left:
  "match_leaves ops lhs rhs = Ok (out, left) \<Longrightarrow> length rhs \<le> length left + length lhs"
proof (induction lhs arbitrary: rhs out left)
  case Nil
  then show ?case by simp
next
  case (Cons l ls)
  from match_leaves_Cons[OF Cons.prems] obtain lp found where lp: "csn_path_of l = Ok lp"
    and f: "findIndex_path (tl lp) rhs = Ok found"
    and c: "(case found of
          None \<Rightarrow> match_leaves ops ls rhs = Ok (out, left)
        | Some k \<Rightarrow> \<exists>rest. match_leaves ops ls (take k rhs @ drop (Suc k) rhs) = Ok (rest, left) \<and>
             out = [ref_only l] @ ops @ [rhs ! k] @ (if ls \<noteq> [] then [boolOp ops] else []) @ rest)"
    by blast
  show ?case
  proof (cases found)
    case None
    with c have "match_leaves ops ls rhs = Ok (out, left)" by simp
    from Cons.IH[OF this] show ?thesis by simp
  next
    case (Some k)
    with c obtain rest where
      r: "match_leaves ops ls (take k rhs @ drop (Suc k) rhs) = Ok (rest, left)"
      by auto
    have k: "k < length rhs" using findIndex_path_Some f Some by blast
    from Cons.IH[OF r] k show ?thesis by simp
  qed
qed



lemma match_leaves_emit:
  assumes "match_leaves ops lhs rhs = Ok (out, [])" "length rhs = length lhs"
  shows "\<exists>rs. mset rs = mset rhs \<and>
              out = emit (boolOp ops) (map2 (\<lambda>l r. ref_only l # ops @ [r]) lhs rs) \<and>
              list_all2 (\<lambda>l r. \<exists>lp. csn_path_of l = Ok lp \<and> same_path (tl lp) r = Ok True) lhs rs"
  using assms
proof (induction lhs arbitrary: rhs out)
  case Nil
  then show ?case by simp
next
  case (Cons l ls)
  from match_leaves_Cons[OF Cons.prems(1)] obtain lp found where lp: "csn_path_of l = Ok lp"
    and f: "findIndex_path (tl lp) rhs = Ok found"
    and c: "(case found of
          None \<Rightarrow> match_leaves ops ls rhs = Ok (out, [])
        | Some k \<Rightarrow> \<exists>rest. match_leaves ops ls (take k rhs @ drop (Suc k) rhs) = Ok (rest, []) \<and>
             out = [ref_only l] @ ops @ [rhs ! k] @ (if ls \<noteq> [] then [boolOp ops] else []) @ rest)"
    by blast
  show ?case
  proof (cases found)
    case None
    with c have "match_leaves ops ls rhs = Ok (out, [])" by simp
    from match_leaves_left[OF this] Cons.prems(2) show ?thesis by simp
  next
    case (Some k)
    with c obtain rest where
      r: "match_leaves ops ls (take k rhs @ drop (Suc k) rhs) = Ok (rest, [])"
      and out: "out = [ref_only l] @ ops @ [rhs ! k] @ (if ls \<noteq> [] then [boolOp ops] else []) @ rest"
      by auto
    have k: "k < length rhs" and sp: "same_path (tl lp) (rhs ! k) = Ok True"
      using findIndex_path_Some f Some by blast+
    have len: "length (take k rhs @ drop (Suc k) rhs) = length ls"
      using k Cons.prems(2) by simp
    from Cons.IH[OF r len] obtain rs where rs: "mset rs = mset (take k rhs @ drop (Suc k) rhs)"
      and rest: "rest = emit (boolOp ops) (map2 (\<lambda>l r. ref_only l # ops @ [r]) ls rs)"
      and all: "list_all2 (\<lambda>l r. \<exists>lp. csn_path_of l = Ok lp \<and> same_path (tl lp) r = Ok True) ls rs"
      by blast
    have "mset (rhs ! k # rs) = mset (take k rhs @ rhs ! k # drop (Suc k) rhs)"
      using rs by simp
    also have "\<dots> = mset rhs"
      by (rule arg_cong[OF id_take_nth_drop[OF k, symmetric]])
    finally have m: "mset (rhs ! k # rs) = mset rhs" .
    have lenrs: "length rs = length ls" using all by (simp add: list_all2_lengthD)
    have o: "out = emit (boolOp ops) (map2 (\<lambda>l r. ref_only l # ops @ [r]) (l # ls) (rhs ! k # rs))"
    proof (cases ls)
      case Nil
      then show ?thesis using out rest lenrs by simp
    next
      case (Cons a as)
      then obtain b bs where "rs = b # bs" using lenrs by (cases rs) auto
      then show ?thesis using out rest Cons by simp
    qed
    have a2: "list_all2 (\<lambda>l r. \<exists>lp. csn_path_of l = Ok lp \<and> same_path (tl lp) r = Ok True)
                (l # ls) (rhs ! k # rs)"
      using all lp sp by simp
    show ?thesis
      using m o a2 by blast
  qed
qed

lemma stream_comparison:
  assumes L: "L = TObj (BRef ref) mt" "\<not> m_param mt" "\<not> is_pseudo_ref env L"
      and links: "m_refLinks mt = Some links" "last_opt links = Some leaf"
      and struct: "elements (l_definition leaf) \<noteq> None \<or> keys (l_definition leaf) \<noteq> None"
      and R: "rhs_comparable R = Ok True"
      and op: "operator \<in> set allOps"
  shows "getTransformedTokenStream (Suc n) hooks env (L # map TStr operator @ [R]) base jt =
           (if operator \<in> set notSupportedOps
            then Err (UnsupportedStructuralComparison (hd operator))
            else bind (expandComparison env n L (map TStr operator) R) (\<lambda>ts. Ok (ts, jt)))"
proof -
  let ?ts = "L # map TStr operator @ [R]"
  have R2: "R \<noteq> TUndef" "\<not> is_second_op allOps (Some R)"
    using R
    by (auto simp: rhs_comparable_def is_second_op_def allOps_def eqOps_def notEqOps_def
        notSupportedOps_def nth_opt_def split: token.splits)
  have isc: "is_comparison ?ts 0"
    using L links struct op
    by (auto simp: is_comparison_def tok_at_def nth_opt_def is_first_op_def allOps_def eqOps_def
        notEqOps_def notSupportedOps_def def_of_token_def links_of_def)
  have tt0: "transform_token call hooks env n base ?ts 0 [] jt =
          bind (comparison_token env n ?ts 0 []) (\<lambda>(skip, out). Ok (skip, out, jt))" for call
    using L isc by (simp add: transform_token_def)
  consider (single) o1 where "operator = [o1]" "o1 \<noteq> ''is'' \<or> True" | (isnot) "operator = [''is'', ''not'']"
    using op by (auto simp: allOps_def eqOps_def notEqOps_def notSupportedOps_def)
  then show ?thesis
  proof cases
    case single
    have ns: "is_first_op notSupportedOps (Some (TStr o1)) = (operator \<in> set notSupportedOps)"
      using single by (auto simp: is_first_op_def notSupportedOps_def nth_opt_def)
    have ct: "comparison_token env n ?ts 0 [] =
         (if operator \<in> set notSupportedOps then Err (UnsupportedStructuralComparison o1)
          else bind (expandComparison env n L [TStr o1] R) (\<lambda>ts. Ok (2, ts)))"
      using single R R2 ns
      by (auto simp: comparison_token_def tok_at_def nth_opt_def bind_def Let_def string_of_token_def
          split: res.splits token.splits)
    have tt: "transform_token call hooks env n base [L, TStr o1, R] 0 [] jt =
         (if operator \<in> set notSupportedOps then Err (UnsupportedStructuralComparison o1)
          else bind (expandComparison env n L [TStr o1] R) (\<lambda>ts. Ok (2, ts, jt)))" for call
      using tt0[of call] ct single by (simp add: bind_def split: res.splits)
    show ?thesis
      using single by (simp add: tt bind_def split: res.splits)
  next
    case isnot
    have two: "is_second_op allOps (Some (TStr ''not''))"
      by (auto simp: is_second_op_def allOps_def eqOps_def notEqOps_def nth_opt_def)
    have ns: "\<not> is_first_op notSupportedOps (Some (TStr ''is''))"
      by (auto simp: is_first_op_def notSupportedOps_def nth_opt_def)
    have nin: "operator \<notin> set notSupportedOps" using isnot by (simp add: notSupportedOps_def)
    have ct: "comparison_token env n ?ts 0 [] =
          bind (expandComparison env n L [TStr ''is'', TStr ''not''] R) (\<lambda>ts. Ok (3, ts))"
      using isnot R R2 ns two
      by (auto simp: comparison_token_def tok_at_def nth_opt_def bind_def Let_def
          split: res.splits token.splits)
    have tt: "transform_token call hooks env n base [L, TStr ''is'', TStr ''not'', R] 0 [] jt =
          bind (expandComparison env n L [TStr ''is'', TStr ''not''] R) (\<lambda>ts. Ok (3, ts, jt))"
      for call
      using tt0[of call] ct isnot by (simp add: bind_def split: res.splits)
    show ?thesis
      using isnot nin by (simp add: tt bind_def split: res.splits)
  qed
qed


lemma map2_replicate:
  "map2 f xs (replicate (length xs) y) = map (\<lambda>x. f x y) xs"
  by (induction xs) auto

lemma boolOp_supported:
  "operator \<in> set allOps \<Longrightarrow> operator \<notin> set notSupportedOps \<Longrightarrow>
     boolOp (map TStr operator) = connective operator"
  by (auto simp: allOps_def eqOps_def notEqOps_def boolOp_def connective_def nth_opt_def)

text \<open>The comparison \<open>dedication = null\<close> joins its leaves with \<open>and\<close>, \<open>dedication <> null\<close>
  with \<open>or\<close>.\<close>

lemma struct_equals_null:
  "(case getTransformedTokenStream 3 example_hooks example_env
           [dedication_ref, TStr ''='', val_of VNull] None [] of
      Ok (out, jt) \<Rightarrow>
        map copy out =
          [ref_of [''Books'', ''dedication_addressee''] no_meta, TStr ''='', val_of VNull,
           TStr ''and'',
           ref_of [''Books'', ''dedication_text''] no_meta, TStr ''='', val_of VNull]
    | _ \<Rightarrow> False)"
  by code_simp

lemma struct_differs_from_null:
  "(case getTransformedTokenStream 3 example_hooks example_env
           [dedication_ref, TStr ''<>'', val_of VNull] None [] of
      Ok (out, jt) \<Rightarrow>
        map copy out =
          [ref_of [''Books'', ''dedication_addressee''] no_meta, TStr ''<>'', val_of VNull,
           TStr ''or'',
           ref_of [''Books'', ''dedication_text''] no_meta, TStr ''<>'', val_of VNull]
    | _ \<Rightarrow> False)"
  by code_simp

text \<open>
  The expansion for a right operand that the source expands at all. Let \<open>L\<close> be a reference
  to a structure or managed association and \<open>R\<close> a reference to a structure or managed
  association, a literal value or \<open>null\<close> (\<open>rhs_comparable\<close>). For the operators \<open><\<close>, \<open><=\<close>,
  \<open>>\<close>, \<open>>=\<close> the stream \<open>L op R\<close> is rejected. For the others, whenever the rewrite returns,
  its output is one comparison \<open>l op r\<close> per leaf of \<open>L\<close>, joined by \<open>and\<close> for \<open>=\<close> and \<open>is\<close> and
  by \<open>or\<close> for \<open><>\<close>, \<open>!=\<close> and \<open>is not\<close>; the right sides are the value itself, or the leaves
  of \<open>R\<close>, each used once and matched by its path.
\<close>

lemma structural_comparison:
  assumes L: "L = TObj (BRef ref) mt" "\<not> m_param mt" "\<not> is_pseudo_ref env L"
      and links: "m_refLinks mt = Some links" "last_opt links = Some leaf"
      and struct: "elements (l_definition leaf) \<noteq> None \<or> keys (l_definition leaf) \<noteq> None"
      and R: "rhs_comparable R = Ok True"
      and op: "operator \<in> set allOps"
  shows "(operator \<in> set notSupportedOps \<longrightarrow>
            getTransformedTokenStream (Suc n) hooks env (L # map TStr operator @ [R]) base jt =
              Err (UnsupportedStructuralComparison (hd operator))) \<and>
         (operator \<notin> set notSupportedOps \<longrightarrow>
            (\<forall>out jt'.
               getTransformedTokenStream (Suc n) hooks env (L # map TStr operator @ [R]) base jt =
                 Ok (out, jt') \<longrightarrow>
               jt' = jt \<and>
               (\<exists>flatLhs ls rs.
                  flattenWithBaseName env n L links = Ok flatLhs \<and>
                  length ls = length flatLhs \<and> length rs = length flatLhs \<and>
                  out = emit (connective operator)
                          (map2 (\<lambda>l r. l # map TStr operator @ [r]) ls rs) \<and>
                  (case links_of R of
                     None \<Rightarrow> ls = flatLhs \<and> rs = replicate (length flatLhs) R
                   | Some rlinks \<Rightarrow>
                       ls = map ref_only flatLhs \<and>
                       (\<exists>flatRhs. flattenWithBaseName env n R rlinks = Ok flatRhs \<and>
                                  mset rs = mset flatRhs \<and>
                                  list_all2 (\<lambda>l r. \<exists>lp. csn_path_of l = Ok lp \<and>
                                                       same_path (tl lp) r = Ok True)
                                    flatLhs rs)))))"
proof (intro conjI impI allI)
  assume "operator \<in> set notSupportedOps"
  then show "getTransformedTokenStream (Suc n) hooks env (L # map TStr operator @ [R]) base jt =
              Err (UnsupportedStructuralComparison (hd operator))"
    using stream_comparison[OF L links struct R op] by simp
next
  fix out jt'
  assume sup: "operator \<notin> set notSupportedOps"
    and ok: "getTransformedTokenStream (Suc n) hooks env (L # map TStr operator @ [R]) base jt =
                 Ok (out, jt')"
  let ?ops = "map TStr operator"
  from ok sup stream_comparison[OF L links struct R op, of n hooks base jt]
  have ex: "expandComparison env n L ?ops R = Ok out" and jt: "jt' = jt"
    by (auto simp: bind_def split: res.splits)
  show "jt' = jt" by (rule jt)
  have nn: "links \<noteq> []" using links(2) by (cases links) auto
  have ll: "links_of L = Some links" using L links by (simp add: links_of_def)
  have ru: "R \<noteq> TUndef" using R by (auto simp: rhs_comparable_def)
  have bo: "boolOp ?ops = connective operator" using boolOp_supported[OF op sup] .
  show "\<exists>flatLhs ls rs.
           flattenWithBaseName env n L links = Ok flatLhs \<and>
           length ls = length flatLhs \<and> length rs = length flatLhs \<and>
           out = emit (connective operator) (map2 (\<lambda>l r. l # map TStr operator @ [r]) ls rs) \<and>
           (case links_of R of
              None \<Rightarrow> ls = flatLhs \<and> rs = replicate (length flatLhs) R
            | Some rlinks \<Rightarrow>
                ls = map ref_only flatLhs \<and>
                (\<exists>flatRhs. flattenWithBaseName env n R rlinks = Ok flatRhs \<and>
                           mset rs = mset flatRhs \<and>
                           list_all2 (\<lambda>l r. \<exists>lp. csn_path_of l = Ok lp \<and>
                                                same_path (tl lp) r = Ok True)
                             flatLhs rs))"
  proof (cases "links_of R")
    case None
    with ex ll nn ru obtain flatLhs where fl: "flattenWithBaseName env n L links = Ok flatLhs"
      and out: "out = compare_each ?ops R flatLhs"
      by (auto simp: expandComparison_def bind_def split: res.splits if_splits)
    have "out = emit (connective operator)
            (map2 (\<lambda>l r. l # map TStr operator @ [r]) flatLhs (replicate (length flatLhs) R))"
      using out bo by (simp add: compare_each_emit map2_replicate)
    with fl None show ?thesis
      by (intro exI[of _ flatLhs] exI[of _ "replicate (length flatLhs) R"]) simp
  next
    case (Some rlinks)
    with ex ll nn ru obtain flatRhs flatLhs where
      fr: "flattenWithBaseName env n R rlinks = Ok flatRhs"
      and fl: "flattenWithBaseName env n L links = Ok flatLhs"
      and len: "length flatRhs = length flatLhs"
      and ml: "match_leaves ?ops flatLhs flatRhs = Ok (out, [])"
      by (auto simp: expandComparison_def bind_def split: res.splits if_splits)
    from match_leaves_emit[OF ml len] obtain rs where
      ms: "mset rs = mset flatRhs"
      and o: "out = emit (boolOp ?ops) (map2 (\<lambda>l r. ref_only l # ?ops @ [r]) flatLhs rs)"
      and al: "list_all2 (\<lambda>l r. \<exists>lp. csn_path_of l = Ok lp \<and> same_path (tl lp) r = Ok True)
                 flatLhs rs"
      by blast
    have lrs: "length rs = length flatLhs" using al by (simp add: list_all2_lengthD)
    have m2: "map2 (\<lambda>l r. ref_only l # ?ops @ [r]) flatLhs rs =
              map2 (\<lambda>l r. l # ?ops @ [r]) (map ref_only flatLhs) rs"
      by (simp add: zip_map1 case_prod_unfold)
    show ?thesis
      using Some fl fr ms o al lrs bo m2
      by (intro exI[of _ flatLhs] exI[of _ "map ref_only flatLhs"] exI[of _ rs]) simp
  qed
qed


text \<open>\<open>dedication < null\<close> is rejected, and \<open>dedication <> null\<close> is of the emitted form.\<close>

lemma structural_comparison_witness:
  "getTransformedTokenStream 3 example_hooks example_env
       [dedication_ref, TStr ''<'', val_of VNull] None []
     = Err (UnsupportedStructuralComparison ''<'') \<and>
   (\<exists>out ls rs.
      getTransformedTokenStream 3 example_hooks example_env
        [dedication_ref, TStr ''<>'', val_of VNull] None [] = Ok (out, []) \<and>
      length ls = length rs \<and>
      out = emit (TStr ''or'') (map2 (\<lambda>l r. l # map TStr [''<>''] @ [r]) ls rs))"
proof -
  let ?d = "struct_of ''Books'' ''dedication'' [''addressee'', ''text'']"
  let ?mt = "no_meta\<lparr> m_refLinks := Some [link_of ?d Books ''dedication''],
                       m_flatName := Some ''dedication'' \<rparr>"
  have L: "dedication_ref = TObj (BRef [SId ''dedication'']) ?mt"
    by (simp add: dedication_ref_def books_ref_def)
  have p: "\<not> m_param ?mt" by (simp add: no_meta_def)
  have ps: "\<not> is_pseudo_ref example_env dedication_ref" by code_simp
  have l1: "m_refLinks ?mt = Some [link_of ?d Books ''dedication'']" by simp
  have l2: "last_opt [link_of ?d Books ''dedication''] = Some (link_of ?d Books ''dedication'')"
    by simp
  have st: "elements (l_definition (link_of ?d Books ''dedication'')) \<noteq> None \<or>
            keys (l_definition (link_of ?d Books ''dedication'')) \<noteq> None"
    by (simp add: link_of_def struct_of_def)
  have R: "rhs_comparable (val_of VNull) = Ok True" by code_simp
  have lt: "[''<''] \<in> set allOps" "[''<''] \<in> set notSupportedOps"
    by (simp_all add: allOps_def notSupportedOps_def)
  have ne: "[''<>''] \<in> set allOps" "[''<>''] \<notin> set notSupportedOps"
    by (simp_all add: allOps_def notEqOps_def notSupportedOps_def)
  have c: "connective [''<>''] = TStr ''or''" by (simp add: connective_def eqOps_def)
  have first: "getTransformedTokenStream 3 example_hooks example_env
       [dedication_ref, TStr ''<'', val_of VNull] None []
     = Err (UnsupportedStructuralComparison ''<'')"
    using structural_comparison [OF L p ps l1 l2 st R lt(1), of 2 example_hooks None "[]"] lt(2)
    by (simp add: numeral_3_eq_3 numeral_2_eq_2)
  have "(case getTransformedTokenStream 3 example_hooks example_env
           [dedication_ref, TStr ''<>'', val_of VNull] None [] of
      Ok (out, jt) \<Rightarrow> jt = [] | _ \<Rightarrow> False)"
    by code_simp
  then obtain out where ok: "getTransformedTokenStream (Suc 2) example_hooks example_env
      (dedication_ref # map TStr [''<>''] @ [val_of VNull]) None [] = Ok (out, [])"
    by (auto simp: numeral_3_eq_3 numeral_2_eq_2 split: res.splits)
  from structural_comparison [OF L p ps l1 l2 st R ne(1), of 2 example_hooks None "[]"] ne(2) ok
  obtain ls rs where "length ls = length rs"
    "out = emit (connective [''<>'']) (map2 (\<lambda>l r. l # map TStr [''<>''] @ [r]) ls rs)"
    by (metis (no_types, lifting))
  with ok c have "\<exists>out ls rs.
      getTransformedTokenStream 3 example_hooks example_env
        [dedication_ref, TStr ''<>'', val_of VNull] None [] = Ok (out, []) \<and>
      length ls = length rs \<and>
      out = emit (TStr ''or'') (map2 (\<lambda>l r. l # map TStr [''<>''] @ [r]) ls rs)"
    by (auto simp: numeral_3_eq_3 numeral_2_eq_2)
  with first show ?thesis by blast
qed

text \<open>
  Claim C5 fails in the code. In \<open>dedication < title\<close> the left operand is a structure and
  the operator is one of \<open>notSupportedOps\<close>, which the claim and the comment at the operators
  reject. The right operand is a scalar reference: the test of the right operand (line 934)
  has no \<open>else\<close>, so the round pushes nothing, neither the error of the operator nor the one
  of \<open>assertNoStructInXpr\<close> is raised, and the loop goes on with the operator. The structure
  is gone from the output: \<open>< Books.title\<close> remains.
\<close>

theorem struct_less_than_scalar_reference:
  "getTransformedTokenStream 3 example_hooks example_env
       [dedication_ref, TStr ''<'', title_ref] None []
     = Ok ([TStr ''<'', ref_of [''Books'', ''title''] no_meta], [])"
  by code_simp

section \<open>A path in the from clause\<close>


















section \<open>Union queries\<close>

text \<open>
  Claim C7. A query with the property \<open>SET\<close> is rejected by the inference, which is the
  first statement of \<open>cqn4sql\<close>: whatever the fuel, the hooks and the model, the result is
  the error and no query.
\<close>

theorem union_rejected:
  assumes "q_SET q \<noteq> None"
  shows "infer (Suc n) ih pseudos q (Some m) = Err UnionNotSupported"
  using assms by simp

text \<open>The union of \<open>Books\<close> and \<open>Authors\<close>.\<close>

theorem union_rejected_witness:
  "q_SET union_query \<noteq> None \<and>
   infer (Suc 0) example_infer_hooks example_pseudos union_query (Some bookshop)
     = Err UnionNotSupported"
  using union_rejected [of union_query 0 example_infer_hooks example_pseudos bookshop]
  by (simp add: union_query_def)



section \<open>Columns without alias\<close>










end
